theory Spec2Isabelle
  imports Complex_Main
begin

section \<open>The pulse processor of qutip/qip/device/processor.py\<close>

text \<open>
  A shallow embedding of class \<open>Processor\<close>. Python floats are idealised as
  \<open>real\<close> (subtraction and comparison exact); Python exceptions are values of
  type \<open>exn\<close>, carrying the exception class and the formatted message.
\<close>

subsection \<open>Exceptions and string formatting\<close>

datatype exn =
    ValueError string
  | TypeError string
  | IndexError string
  | UserWarning string
  | DeprecationWarning string

fun is_TypeError :: "exn \<Rightarrow> bool" where
  "is_TypeError (TypeError _) = True"
| "is_TypeError _ = False"

definition digit_char :: "nat \<Rightarrow> char" where
  "digit_char d = char_of (48 + d)"

text \<open>Python's \<open>str(n)\<close> for a non-negative integer.\<close>

fun str_nat :: "nat \<Rightarrow> string" where
  "str_nat n = (if n < 10 then [digit_char n] else str_nat (n div 10) @ [digit_char (n mod 10)])"

declare str_nat.simps [simp del]

text \<open>
  Reading a decimal numeral: the number a non-empty string of digits denotes, \<open>None\<close>
  for any other string.
\<close>

definition digit_of :: "char \<Rightarrow> nat option" where
  "digit_of c = (let k = (of_char c :: nat) in if 48 \<le> k \<and> k \<le> 57 then Some (k - 48) else None)"

fun decimal_from :: "nat \<Rightarrow> string \<Rightarrow> nat option" where
  "decimal_from acc [] = Some acc"
| "decimal_from acc (c # cs) =
     (case digit_of c of None \<Rightarrow> None | Some d \<Rightarrow> decimal_from (10 * acc + d) cs)"

definition decimal_value :: "string \<Rightarrow> nat option" where
  "decimal_value s = (if s = [] then None else decimal_from 0 s)"

definition str_int :: "int \<Rightarrow> string" where
  "str_int i = (if i < 0 then CHR ''-'' # str_nat (nat (- i)) else str_nat (nat i))"

fun join_comma :: "string list \<Rightarrow> string" where
  "join_comma [] = []"
| "join_comma [s] = s"
| "join_comma (s # t # ss) = s @ '', '' @ join_comma (t # ss)"

text \<open>Python's \<open>str(xs)\<close> for a list of integers, for example \<open>[0, 1]\<close>.\<close>

definition str_int_list :: "int list \<Rightarrow> string" where
  "str_int_list xs = ''['' @ join_comma (map str_int xs) @ '']''"

subsection \<open>Data model\<close>

text \<open>
  Modelled from the spec: class \<open>Qobj\<close> (qutip/qobj.py) is not under src/. The
  record holds what processor.py reads of an operator: the opaque matrix, the row
  dimensions \<open>dims[0]\<close> and the Hermiticity flag \<open>isherm\<close>.
\<close>

record 'm Qobj =
  qdata :: 'm
  qdims :: "nat list"
  isherm :: bool

text \<open>An argument that is expected to be a \<open>Qobj\<close> (\<open>isinstance(qobj, Qobj)\<close>).\<close>

datatype 'm pyobj = IsQobj "'m Qobj" | NotQobj

text \<open>
  The coefficient of a pulse: \<open>None\<close>, a Python \<open>bool\<close>, a NumPy array, or any
  other object (a callable, a string, a list). Of the last the code only observes
  \<open>len()\<close>: \<open>Some n\<close> when the object has a length, \<open>None\<close> when \<open>len\<close> raises.
\<close>

datatype coeff_val = CNone | CBool bool | CArray "real list" | COther "nat option"

text \<open>
  Modelled from the spec: class \<open>Pulse\<close> (qutip/qip/pulse.py) is not under src/. The
  record holds the attributes processor.py reads and writes (spec section 3).
\<close>

record 'm pulse =
  qobj :: "'m Qobj"
  targets :: "int list"
  tlist :: "real list option"
  coeff :: coeff_val
  spline_kind :: "string option"
  label :: "string option"

text \<open>The constructor call \<open>Pulse(qobj, targets, spline_kind=..., label=...)\<close>.\<close>

definition Pulse :: "'m Qobj \<Rightarrow> int list \<Rightarrow> string option \<Rightarrow> string option \<Rightarrow> 'm pulse" where
  "Pulse q ts kind lbl =
     \<lparr>qobj = q, targets = ts, tlist = None, coeff = CNone, spline_kind = kind, label = lbl\<rparr>"

text \<open>\<open>t1\<close> and \<open>t2\<close>: \<open>None\<close>, one float, or a list of floats.\<close>

datatype relax = RNone | RFloat real | RList "real list"

record ('m, 'n) processor =
  num_qubits :: nat
  pulses :: "'m pulse list"
  t1 :: relax
  t2 :: relax
  noise :: "'n list"
  drift :: "('m Qobj \<times> int list) list"
  dims :: "nat list"
  proc_spline_kind :: "string option"
  correct_global_phase :: "bool option"
  global_phase :: "real option"

text \<open>
  \<open>Processor.__init__\<close>. The base class has no attributes \<open>correct_global_phase\<close>
  and \<open>global_phase\<close> (they are \<open>None\<close> here: reading them raises AttributeError).
  The assignment \<open>self.pulse_mode = "discrete"\<close> sets the kind to \<open>step_func\<close> over
  the still empty pulse list and is then overwritten by \<open>spline_kind\<close>.
\<close>

definition init_processor ::
  "nat \<Rightarrow> relax \<Rightarrow> relax \<Rightarrow> nat list option \<Rightarrow> string option \<Rightarrow> ('m, 'n) processor" where
  "init_processor n r1 r2 ds kind =
     \<lparr>num_qubits = n, pulses = [], t1 = r1, t2 = r2, noise = [], drift = [],
      dims = (case ds of None \<Rightarrow> replicate n 2 | Some d \<Rightarrow> d),
      proc_spline_kind = kind, correct_global_phase = None, global_phase = None\<rparr>"

subsection \<open>add_control\<close>

text \<open>The \<open>targets\<close> argument: \<open>None\<close>, a single index, or a list.\<close>

datatype targets_arg = TNone | TSingle int | TList "int list"

definition norm_targets :: "'m Qobj \<Rightarrow> targets_arg \<Rightarrow> int list" where
  "norm_targets q ta =
     (case ta of
        TNone \<Rightarrow> map int [0 ..< length (qdims q)]
      | TSingle t \<Rightarrow> [t]
      | TList ts \<Rightarrow> ts)"

text \<open>
  One pass of the loop body of the cyclic branch. The suffixed label is computed when
  a label is given, and then overwritten by \<open>temp_label = label\<close>.
\<close>

definition cyclic_step ::
  "nat \<Rightarrow> string option \<Rightarrow> 'm Qobj \<Rightarrow> int list \<Rightarrow> string option \<Rightarrow> nat \<Rightarrow> 'm pulse list \<Rightarrow> 'm pulse list" where
  "cyclic_step n kind q ts lbl i ps =
     (let temp_targets = map (\<lambda>t. (t + int i) mod int n) ts;
          temp_label = (case lbl of None \<Rightarrow> None
                        | Some l \<Rightarrow> Some (l @ ''_'' @ str_int_list temp_targets));
          temp_label = lbl
      in ps @ [Pulse q temp_targets kind temp_label])"

definition add_control ::
  "'m pyobj \<Rightarrow> targets_arg \<Rightarrow> bool \<Rightarrow> string option \<Rightarrow> ('m, 'n) processor \<Rightarrow> exn + ('m, 'n) processor" where
  "add_control arg ta cyclic_permutation lbl p =
     (case arg of
        NotQobj \<Rightarrow> Inl (TypeError ''The control Hamiltonian must be a qutip.Qobj.'')
      | IsQobj q \<Rightarrow>
          if \<not> isherm q then Inl (ValueError ''The control Hamiltonian must be Hermitian.'')
          else
            let ts = norm_targets q ta in
            if cyclic_permutation then
              Inr (p\<lparr>pulses := fold (cyclic_step (num_qubits p) (proc_spline_kind p) q ts lbl)
                                   [0 ..< num_qubits p] (pulses p)\<rparr>)
            else
              Inr (p\<lparr>pulses := pulses p @ [Pulse q ts (proc_spline_kind p) lbl]\<rparr>))"

subsection \<open>get_full_tlist\<close>

text \<open>\<open>np.sort\<close> followed by \<open>np.unique\<close>: ascending, exact duplicates removed.\<close>

definition np_unique_sort :: "real list \<Rightarrow> real list" where
  "np_unique_sort xs = remdups_adj (sort xs)"

text \<open>\<open>np.diff(a)\<close>: the differences \<open>a[k+1] - a[k]\<close>.\<close>

fun np_diff :: "real list \<Rightarrow> real list" where
  "np_diff (x # y # xs) = (y - x) # np_diff (y # xs)"
| "np_diff _ = []"

text \<open>Indexing an array with a boolean mask: \<open>a[mask]\<close>.\<close>

definition mask_index :: "'a list \<Rightarrow> bool list \<Rightarrow> 'a list" where
  "mask_index xs bs = map fst (filter snd (zip xs bs))"

definition get_full_tlist :: "'m pulse list \<Rightarrow> real \<Rightarrow> real list option" where
  "get_full_tlist ps tol =
     (let full_tlist = concat (map (\<lambda>x. case tlist x of None \<Rightarrow> [] | Some g \<Rightarrow> [g]) ps)
      in if full_tlist = [] then None
         else
           let full_tlist = np_unique_sort (concat full_tlist)
           in Some (take 1 full_tlist @
                    mask_index (drop 1 full_tlist) (map (\<lambda>d. d > tol) (np_diff full_tlist))))"

text \<open>The default value of the parameter \<open>tol\<close>.\<close>

definition default_tol :: real where
  "default_tol = 1 / 10 ^ 10"

text \<open>
  The merge as the specification words it: walk the sorted union and drop a point when
  its gap to the previous retained point is at or below the tolerance.
\<close>

fun collapse_retained :: "real \<Rightarrow> real \<Rightarrow> real list \<Rightarrow> real list" where
  "collapse_retained tol r [] = []"
| "collapse_retained tol r (x # xs) =
     (if x - r \<le> tol then collapse_retained tol r xs else x # collapse_retained tol x xs)"

definition spec_full_tlist :: "'m pulse list \<Rightarrow> real \<Rightarrow> real list option" where
  "spec_full_tlist ps tol =
     (if \<forall>x \<in> set ps. tlist x = None then None
      else case np_unique_sort (concat (map (\<lambda>x. case tlist x of None \<Rightarrow> [] | Some g \<Rightarrow> g) ps)) of
             [] \<Rightarrow> Some []
           | t # ts \<Rightarrow> Some (t # collapse_retained tol t ts))"

text \<open>
  What the code does instead: a point is dropped when its gap to its immediate
  predecessor in the sorted union is at or below the tolerance.
\<close>

fun collapse_adjacent :: "real \<Rightarrow> real \<Rightarrow> real list \<Rightarrow> real list" where
  "collapse_adjacent tol r [] = []"
| "collapse_adjacent tol r (x # xs) =
     (if x - r \<le> tol then collapse_adjacent tol x xs else x # collapse_adjacent tol x xs)"

text \<open>All time points of all pulses that have a grid.\<close>

definition all_points :: "'m pulse list \<Rightarrow> real list" where
  "all_points ps = concat (map (\<lambda>x. case tlist x of None \<Rightarrow> [] | Some g \<Rightarrow> g) ps)"

subsection \<open>_is_pulses_valid\<close>

text \<open>\<open>isinstance(pulse.coeff, bool)\<close>.\<close>

fun is_bool :: "coeff_val \<Rightarrow> bool" where
  "is_bool (CBool b) = True"
| "is_bool c = False"

text \<open>\<open>len(pulse.coeff)\<close> on a coefficient that is neither \<open>None\<close> nor a \<open>bool\<close>.\<close>

fun py_len :: "coeff_val \<Rightarrow> exn + nat" where
  "py_len (CArray xs) = Inr (length xs)"
| "py_len (COther (Some n)) = Inr n"
| "py_len _ = Inl (TypeError ''object has no len()'')"

definition msg_no_tlist :: "nat \<Rightarrow> string" where
  "msg_no_tlist i = ''Pulse id='' @ str_nat i @ '' is invalid. Please define a tlist for the pulse.''"

definition msg_no_coeff :: "nat \<Rightarrow> string" where
  "msg_no_coeff i = ''Pulse id='' @ str_nat i @ '' is invalid. Please define a coeff for the pulse.''"

definition msg_step_func :: "nat \<Rightarrow> string" where
  "msg_step_func i =
     ''The length of tlist and coeff of the pulse labelled '' @ str_nat i @ '' is invalid. '' @
     ''It'' @ [CHR 0x27] @ ''s either len(tlist)=len(coeff) or '' @
     ''len(tlist)-1=len(coeff) for coefficients as step function''"

definition msg_cubic :: "nat \<Rightarrow> string" where
  "msg_cubic i =
     ''The length of tlist and coeff of the pulse labelled '' @ str_nat i @ '' is invalid. '' @
     ''It should be either len(tlist)=len(coeff)''"

text \<open>
  The body of the loop for the pulse at position \<open>i\<close>: \<open>None\<close> when the loop goes
  on, the exception otherwise.
\<close>

definition check_pulse :: "nat \<Rightarrow> 'm pulse \<Rightarrow> exn option" where
  "check_pulse i x =
     (if coeff x = CNone \<or> is_bool (coeff x) then None
      else if tlist x = None then Some (ValueError (msg_no_tlist i))
      else if tlist x \<noteq> None \<and> coeff x = CNone then Some (ValueError (msg_no_coeff i))
      else case py_len (coeff x) of
             Inl e \<Rightarrow> Some e
           | Inr coeff_len \<Rightarrow>
               let tlist_len = length (the (tlist x)) in
               if spline_kind x = Some ''step_func'' then
                 if int coeff_len = int tlist_len - 1 \<or> coeff_len = tlist_len then None
                 else Some (ValueError (msg_step_func i))
               else
                 if coeff_len = tlist_len then None
                 else Some (ValueError (msg_cubic i)))"

fun is_pulses_valid_from :: "nat \<Rightarrow> 'm pulse list \<Rightarrow> exn + bool" where
  "is_pulses_valid_from i [] = Inr True"
| "is_pulses_valid_from i (x # xs) =
     (case check_pulse i x of
        Some e \<Rightarrow> Inl e
      | None \<Rightarrow> is_pulses_valid_from (Suc i) xs)"

definition is_pulses_valid :: "('m, 'n) processor \<Rightarrow> exn + bool" where
  "is_pulses_valid p = is_pulses_valid_from 0 (pulses p)"

text \<open>The validity of one pulse as the specification words it (section 4.3).\<close>

definition spec_pulse_valid :: "'m pulse \<Rightarrow> bool" where
  "spec_pulse_valid x =
     (case coeff x of
        CNone \<Rightarrow> True
      | CBool b \<Rightarrow> True
      | c \<Rightarrow>
          (case tlist x of
             None \<Rightarrow> False
           | Some g \<Rightarrow>
               (case py_len c of
                  Inl e \<Rightarrow> False
                | Inr n \<Rightarrow>
                    if spline_kind x = Some ''step_func''
                    then Suc n = length g \<or> n = length g
                    else n = length g)))"

subsection \<open>remove_pulse\<close>

text \<open>The \<open>indices\<close> argument: \<open>None\<close>, one integer, or a list of integers.\<close>

datatype indices_arg = INone | IInt int | IList "int list"

definition delete_at :: "nat \<Rightarrow> 'a list \<Rightarrow> 'a list" where
  "delete_at i xs = take i xs @ drop (Suc i) xs"

text \<open>\<open>del xs[ind]\<close>: a negative index counts from the end.\<close>

definition py_del :: "int \<Rightarrow> 'a list \<Rightarrow> exn + 'a list" where
  "py_del ind xs =
     (let n = int (length xs); j = (if ind < 0 then n + ind else ind)
      in if 0 \<le> j \<and> j < n then Inr (delete_at (nat j) xs)
         else Inl (IndexError ''list assignment index out of range''))"

text \<open>The loop over the sorted indices; the list keeps the deletions made before a failure.\<close>

fun del_indices :: "int list \<Rightarrow> 'a list \<Rightarrow> 'a list \<times> exn option" where
  "del_indices [] xs = (xs, None)"
| "del_indices (ind # inds) xs =
     (case py_del ind xs of
        Inl e \<Rightarrow> (xs, Some e)
      | Inr xs' \<Rightarrow> del_indices inds xs')"

text \<open>
  \<open>for ind, pulse in enumerate(self.pulses)\<close> while the body deletes from the same
  list: the list iterator holds only the position \<open>ind\<close>, reads \<open>self.pulses[ind]\<close>
  when \<open>ind < len(self.pulses)\<close> and stops otherwise, and moves on by one after the
  body, whether or not the body has deleted an element.
\<close>

function remove_label_from :: "nat \<Rightarrow> string option \<Rightarrow> 'm pulse list \<Rightarrow> 'm pulse list" where
  "remove_label_from ind lbl ps =
     (if ind < length ps then
        (if label (ps ! ind) = lbl then remove_label_from (Suc ind) lbl (delete_at ind ps)
         else remove_label_from (Suc ind) lbl ps)
      else ps)"
  by pat_completeness auto
termination
  by (relation "measure (\<lambda>(ind, lbl, ps). length ps - ind)") (auto simp: delete_at_def)

declare remove_label_from.simps [simp del]

definition remove_pulse ::
  "indices_arg \<Rightarrow> string option \<Rightarrow> ('m, 'n) processor \<Rightarrow> ('m, 'n) processor \<times> exn option" where
  "remove_pulse indices lbl p =
     (case indices of
        INone \<Rightarrow> (p\<lparr>pulses := remove_label_from 0 lbl (pulses p)\<rparr>, None)
      | IInt i \<Rightarrow>
          (case del_indices (rev (sort [i])) (pulses p) of
             (ps, e) \<Rightarrow> (p\<lparr>pulses := ps\<rparr>, e))
      | IList inds \<Rightarrow>
          (case del_indices (rev (sort inds)) (pulses p) of
             (ps, e) \<Rightarrow> (p\<lparr>pulses := ps\<rparr>, e)))"

subsection \<open>External operations\<close>

text \<open>
  Modelled from the spec: the operator algebra (qutip/qobj.py, spec section 6), the
  methods \<open>Pulse.get_ideal_qobj\<close> and \<open>_EvoElement.get_qobj\<close>, the resampler
  \<open>_fill_coeff\<close> (qutip/qip/pulse.py, spec section 4.2) and \<open>globalphase\<close> are not
  under src/. They are parameters. \<open>'v\<close> is the type of the Python values that the
  operator expressions produce (a \<open>Qobj\<close>, or the integer \<open>0\<close> the sums start from).

  \<^item> \<open>fill_coeff coeff tlist full_tlist step\<close> is \<open>_fill_coeff(coeff, tlist, full_tlist, arg)\<close>,
    with \<open>step\<close> true when \<open>arg\<close> is \<open>{"_step_func_coeff": True}\<close>; the two grids are
    passed as they are (possibly \<open>None\<close>), and the call may raise;
  \<^item> \<open>py_zero\<close> is the integer \<open>0\<close>, \<open>py_add\<close> is \<open>+\<close>, \<open>py_scale c q\<close> is \<open>c * q\<close>;
  \<^item> \<open>step_expm h dt\<close> is \<open>(-1j * h * dt).expm()\<close>;
  \<^item> \<open>eliminate_auxillary_modes\<close> is the overridable hook (the identity in the base class).
\<close>

record ('m, 'v) externals =
  fill_coeff :: "real list \<Rightarrow> real list option \<Rightarrow> real list option \<Rightarrow> bool \<Rightarrow> exn + real list"
  get_ideal_qobj :: "'m pulse \<Rightarrow> nat list \<Rightarrow> 'v"
  drift_get_qobj :: "'m Qobj \<times> int list \<Rightarrow> nat list \<Rightarrow> 'v"
  py_zero :: 'v
  py_add :: "'v \<Rightarrow> 'v \<Rightarrow> 'v"
  py_scale :: "real \<Rightarrow> 'v \<Rightarrow> 'v"
  step_expm :: "'v \<Rightarrow> real \<Rightarrow> 'v"
  eliminate_auxillary_modes :: "'v \<Rightarrow> 'v"
  globalphase :: "real \<Rightarrow> nat \<Rightarrow> 'v"

subsection \<open>get_full_coeffs\<close>

text \<open>
  A NumPy array of floats: zero-dimensional (a single value), one-dimensional, or
  two-dimensional (a list of rows).
\<close>

datatype ndarray = Arr0 real | Arr1 "real list" | Arr2 "real list list"

definition msg_none_len :: string where
  "msg_none_len = ''object of type '' @ [CHR 0x27] @ ''NoneType'' @ [CHR 0x27] @ '' has no len()''"

text \<open>\<open>len(full_tlist)\<close>, where \<open>full_tlist\<close> may be \<open>None\<close>.\<close>

definition len_opt :: "real list option \<Rightarrow> exn + nat" where
  "len_opt g = (case g of None \<Rightarrow> Inl (TypeError msg_none_len) | Some xs \<Rightarrow> Inr (length xs))"

definition msg_coeff_type :: string where
  "msg_coeff_type = ''get_full_coeffs only works for NumPy array or bool coeff.''"

text \<open>The body of the loop over the pulses: the row appended for one pulse, or the exception.\<close>

definition full_coeff_row ::
  "('m, 'v) externals \<Rightarrow> string option \<Rightarrow> real list option \<Rightarrow> 'm pulse \<Rightarrow> exn + real list" where
  "full_coeff_row ex kind full_tlist x =
     (if tlist x = None \<and> coeff x = CNone then
        (case len_opt full_tlist of Inl e \<Rightarrow> Inl e | Inr n \<Rightarrow> Inr (replicate n 0))
      else
        case coeff x of
          CBool b \<Rightarrow>
            (case len_opt full_tlist of
               Inl e \<Rightarrow> Inl e
             | Inr n \<Rightarrow> if b then Inr (replicate n 1) else Inr (replicate n 0))
        | CArray c \<Rightarrow>
            if kind = Some ''step_func'' then
              fill_coeff ex c (tlist x) full_tlist True
            else if kind = Some ''cubic'' then
              fill_coeff ex c (tlist x) full_tlist False
            else Inl (ValueError ''Unknown spline kind.'')
        | _ \<Rightarrow> Inl (ValueError msg_coeff_type))"

fun full_coeff_rows ::
  "('m, 'v) externals \<Rightarrow> string option \<Rightarrow> real list option \<Rightarrow> 'm pulse list \<Rightarrow> real list list
     \<Rightarrow> exn + real list list" where
  "full_coeff_rows ex kind full_tlist [] coeffs_list = Inr coeffs_list"
| "full_coeff_rows ex kind full_tlist (x # xs) coeffs_list =
     (case full_coeff_row ex kind full_tlist x of
        Inl e \<Rightarrow> Inl e
      | Inr row \<Rightarrow> full_coeff_rows ex kind full_tlist xs (coeffs_list @ [row]))"

text \<open>
  The constant pulses of the specification (section 4.2): a boolean coefficient, or
  neither grid nor coefficient; and the level they are resampled to.
\<close>

definition is_constant_pulse :: "'m pulse \<Rightarrow> bool" where
  "is_constant_pulse x = (is_bool (coeff x) \<or> (tlist x = None \<and> coeff x = CNone))"

definition constant_level :: "'m pulse \<Rightarrow> real" where
  "constant_level x = (if coeff x = CBool True then 1 else 0)"

text \<open>\<open>if full_tlist is None: full_tlist = self.get_full_tlist()\<close>.\<close>

definition resolve_full_tlist :: "real list option \<Rightarrow> ('m, 'n) processor \<Rightarrow> real list option" where
  "resolve_full_tlist full_tlist p =
     (case full_tlist of
        None \<Rightarrow> get_full_tlist (pulses p) default_tol
      | Some g \<Rightarrow> Some g)"

definition get_full_coeffs ::
  "('m, 'v) externals \<Rightarrow> real list option \<Rightarrow> ('m, 'n) processor \<Rightarrow> exn + ndarray" where
  "get_full_coeffs ex full_tlist p =
     (case is_pulses_valid p of
        Inl e \<Rightarrow> Inl e
      | Inr _ \<Rightarrow>
          if pulses p = [] then Inr (Arr1 [0, 0])
          else
            let full_tlist = resolve_full_tlist full_tlist p
            in case full_coeff_rows ex (proc_spline_kind p) full_tlist (pulses p) [] of
                 Inl e \<Rightarrow> Inl e
               | Inr coeffs_list \<Rightarrow> Inr (Arr2 coeffs_list))"

subsection \<open>run_analytically\<close>

text \<open>
  \<open>coeffs[m, n]\<close>: a two-dimensional array needs rows of one length; anything else (the
  one-dimensional array of a processor without pulses, ragged rows, an index out of
  range) raises IndexError. \<open>get_full_coeffs\<close> never returns a zero-dimensional array.
\<close>

definition index2 :: "ndarray \<Rightarrow> nat \<Rightarrow> nat \<Rightarrow> exn + real" where
  "index2 a m n =
     (case a of
        Arr0 x \<Rightarrow> Inl (IndexError ''too many indices for array'')
      | Arr1 xs \<Rightarrow> Inl (IndexError ''too many indices for array'')
      | Arr2 rows \<Rightarrow>
          if list_all (\<lambda>r. length r = length (hd rows)) rows \<and> m < length rows \<and> n < length (rows ! m)
          then Inr (rows ! m ! n)
          else Inl (IndexError ''index out of bounds''))"

text \<open>The property \<open>ctrls\<close>.\<close>

definition ctrls :: "('m, 'v) externals \<Rightarrow> ('m, 'n) processor \<Rightarrow> 'v list" where
  "ctrls ex p = map (\<lambda>x. get_ideal_qobj ex x (dims p)) (pulses p)"

text \<open>The list \<open>[coeffs[m, n] * self.ctrls[m] for m in range(len(self.ctrls))]\<close>.\<close>

fun control_terms ::
  "('m, 'v) externals \<Rightarrow> ('m, 'n) processor \<Rightarrow> ndarray \<Rightarrow> nat \<Rightarrow> nat list \<Rightarrow> exn + 'v list" where
  "control_terms ex p coeffs n [] = Inr []"
| "control_terms ex p coeffs n (m # ms) =
     (case index2 coeffs m n of
        Inl e \<Rightarrow> Inl e
      | Inr c \<Rightarrow>
          (case control_terms ex p coeffs n ms of
             Inl e \<Rightarrow> Inl e
           | Inr vs \<Rightarrow> Inr (py_scale ex c (ctrls ex p ! m) # vs)))"

text \<open>Python's \<open>sum(xs)\<close>: \<open>0 + xs[0] + xs[1] + ...\<close>.\<close>

definition py_sum :: "('m, 'v) externals \<Rightarrow> 'v list \<Rightarrow> 'v" where
  "py_sum ex vs = fold (\<lambda>v acc. py_add ex acc v) vs (py_zero ex)"

text \<open>The loop \<open>for n in range(len(tlist)-1)\<close>, over the remaining values of \<open>n\<close>.\<close>

fun analytic_loop ::
  "('m, 'v) externals \<Rightarrow> ('m, 'n) processor \<Rightarrow> ndarray \<Rightarrow> real list \<Rightarrow> 'v \<Rightarrow> nat list \<Rightarrow> 'v list
     \<Rightarrow> exn + 'v list" where
  "analytic_loop ex p coeffs grid H_drift [] U_list = Inr U_list"
| "analytic_loop ex p coeffs grid H_drift (n # ns) U_list =
     (case control_terms ex p coeffs n [0 ..< length (ctrls ex p)] of
        Inl e \<Rightarrow> Inl e
      | Inr terms \<Rightarrow>
          let H = py_add ex H_drift (py_sum ex terms);
              dt = grid ! (n + 1) - grid ! n;
              U = step_expm ex H dt;
              U = eliminate_auxillary_modes ex U
          in analytic_loop ex p coeffs grid H_drift ns (U_list @ [U]))"

text \<open>
  The closing \<open>try\<close> block: reading an attribute the processor does not have raises
  AttributeError, which is caught; \<open>and\<close> does not read \<open>global_phase\<close> when
  \<open>correct_global_phase\<close> is false.
\<close>

definition phase_entry :: "('m, 'v) externals \<Rightarrow> ('m, 'n) processor \<Rightarrow> 'v list" where
  "phase_entry ex p =
     (case correct_global_phase p of
        None \<Rightarrow> []
      | Some False \<Rightarrow> []
      | Some True \<Rightarrow>
          (case global_phase p of
             None \<Rightarrow> []
           | Some ph \<Rightarrow> if ph \<noteq> 0 then [globalphase ex ph (num_qubits p)] else []))"

text \<open>The loop that sums the drift Hamiltonians, starting from the integer \<open>0\<close>.\<close>

definition drift_sum :: "('m, 'v) externals \<Rightarrow> ('m, 'n) processor \<Rightarrow> 'v" where
  "drift_sum ex p =
     fold (\<lambda>drift_ham H. py_add ex H (drift_get_qobj ex drift_ham (dims p))) (drift p) (py_zero ex)"

definition run_analytically ::
  "('m, 'v) externals \<Rightarrow> 'v option \<Rightarrow> ('m, 'n) processor \<Rightarrow> exn + 'v list" where
  "run_analytically ex init_state p =
     (let U_list = (case init_state of Some s \<Rightarrow> [s] | None \<Rightarrow> []);
          full_grid = get_full_tlist (pulses p) default_tol
      in case get_full_coeffs ex None p of
           Inl e \<Rightarrow> Inl e
         | Inr coeffs \<Rightarrow>
             let H_drift = drift_sum ex p
             in case full_grid of
                  None \<Rightarrow> Inl (TypeError msg_none_len)
                | Some grid \<Rightarrow>
                    (case analytic_loop ex p coeffs grid H_drift [0 ..< length grid - 1] U_list of
                       Inl e \<Rightarrow> Inl e
                     | Inr U_list \<Rightarrow> Inr (U_list @ phase_entry ex p)))"

text \<open>
  The generator and the step propagator as the specification words them (section 4.6),
  written without the functions of the code: the drift is the sum of the drift terms,
  \<open>G_n = Drift + \<Sum>_m coeff_m(t_n) \<cdot> control_m\<close> takes the resampled coefficient at the
  left end point, and \<open>exp(-i G_n (t_{n+1} - t_n))\<close> is passed through the hook. The sums
  start from the integer \<open>0\<close> and add from the left, as the operator algebra is opaque.
\<close>

definition spec_drift :: "('m, 'v) externals \<Rightarrow> ('m, 'n) processor \<Rightarrow> 'v" where
  "spec_drift ex p =
     foldl (py_add ex) (py_zero ex) (map (\<lambda>d. drift_get_qobj ex d (dims p)) (drift p))"

definition spec_generator ::
  "('m, 'v) externals \<Rightarrow> ('m, 'n) processor \<Rightarrow> real list list \<Rightarrow> nat \<Rightarrow> 'v" where
  "spec_generator ex p rows n =
     py_add ex (spec_drift ex p)
       (foldl (py_add ex) (py_zero ex)
          (map (\<lambda>m. py_scale ex (rows ! m ! n) (get_ideal_qobj ex (pulses p ! m) (dims p)))
             [0 ..< length (pulses p)]))"

definition spec_propagator ::
  "('m, 'v) externals \<Rightarrow> ('m, 'n) processor \<Rightarrow> real list list \<Rightarrow> real list \<Rightarrow> nat \<Rightarrow> 'v" where
  "spec_propagator ex p rows grid n =
     eliminate_auxillary_modes ex
       (step_expm ex (spec_generator ex p rows n) (grid ! Suc n - grid ! n))"

text \<open>
  The closing entry as the specification words it: one global-phase factor when the
  capability is present and switched on and a non-zero phase is recorded.
\<close>

definition spec_phase :: "('m, 'v) externals \<Rightarrow> ('m, 'n) processor \<Rightarrow> 'v list" where
  "spec_phase ex p =
     (if correct_global_phase p = Some True \<and> global_phase p \<noteq> None \<and> global_phase p \<noteq> Some 0
      then [globalphase ex (the (global_phase p)) (num_qubits p)]
      else [])"

subsection \<open>run_state\<close>

text \<open>
  \<open>warnings.warn\<close>: under a warnings filter with action \<open>error\<close> the warning is raised
  as an exception; otherwise it is reported and \<open>warn\<close> returns \<open>None\<close>. The filter is
  the parameter \<open>as_error\<close>; the reported warnings are collected in a list.
\<close>

definition msg_analytical :: string where
  "msg_analytical =
     ''Analytical matrices exponentiation'' @ ''does not process noise or'' @ ''any keyword arguments.''"

datatype ('v, 'r) run_result = Propagators "'v list" | SolverResult 'r

text \<open>
  The numerical branch (\<open>get_qobjevo\<close>, the merge of the collapse operators and the
  call of \<open>mesolve\<close> or \<open>mcsolve\<close>) is the parameter \<open>numeric\<close>: the solvers are not part
  of this development.
\<close>

definition run_state ::
  "('m, 'v) externals \<Rightarrow> (exn \<Rightarrow> bool) \<Rightarrow>
   ('v \<Rightarrow> bool \<Rightarrow> string \<Rightarrow> (string \<times> 'k) list \<Rightarrow> ('m, 'n) processor \<Rightarrow> exn + 'r) \<Rightarrow>
   'v option \<Rightarrow> bool \<Rightarrow> 'v option \<Rightarrow> bool \<Rightarrow> string \<Rightarrow> (string \<times> 'k) list \<Rightarrow>
   ('m, 'n) processor \<Rightarrow> exn list \<times> (exn + ('v, 'r) run_result)" where
  "run_state ex as_error numeric init_state analytical states noisy solver kwargs p =
     (let w1 = DeprecationWarning ''states will be deprecated and replaced by init_state'' in
      if states \<noteq> None \<and> as_error w1 then ([], Inl w1)
      else
        let warned = (if states \<noteq> None then [w1] else []) in
        if init_state = None \<and> states = None then
          (warned, Inl (ValueError ''Qubit state not defined.''))
        else
          let init_state = (if init_state = None then states else init_state) in
          if analytical then
            if kwargs \<noteq> [] \<or> noise p \<noteq> [] then
              let w2 = UserWarning msg_analytical in
              if as_error w2 then (warned, Inl w2)
              else (warned @ [w2], Inl (TypeError ''exceptions must derive from BaseException''))
            else
              (warned,
               case run_analytically ex init_state p of
                 Inl e \<Rightarrow> Inl e
               | Inr U_list \<Rightarrow> Inr (Propagators U_list))
          else if ''H'' \<in> set (map fst kwargs) \<or> ''tlist'' \<in> set (map fst kwargs) then
            (warned,
             Inl (ValueError (''`H` and `tlist` are already specified by the processor '' @
                              ''and can not be given as a keyword argument'')))
          else
            (warned,
             case numeric (the init_state) noisy solver kwargs p of
               Inl e \<Rightarrow> Inl e
             | Inr r \<Rightarrow> Inr (SolverResult r)))"

subsection \<open>save_coeff and read_coeff\<close>

text \<open>\<open>a.T\<close> for a two-dimensional array given by its rows.\<close>

definition np_transpose :: "real list list \<Rightarrow> real list list" where
  "np_transpose rows =
     (case rows of
        [] \<Rightarrow> []
      | r # _ \<Rightarrow> map (\<lambda>j. map (\<lambda>x. x ! j) rows) [0 ..< length r])"

text \<open>
  The text layer, with floats idealised as reals: \<open>fmt='%1.16f'\<close> writes the nearest
  multiple of \<open>1e-16\<close>, a tie going to the even one, and \<open>np.loadtxt\<close> returns the
  values read, squeezed: a file with a single value gives a zero-dimensional array, a
  file with a single row or a single column a one-dimensional one.
\<close>

definition round_half_even :: "real \<Rightarrow> int" where
  "round_half_even y =
     (let f = \<lfloor>y\<rfloor> in
      if y - of_int f < 1 / 2 then f
      else if 1 / 2 < y - of_int f then f + 1
      else if even f then f else f + 1)"

definition fmt_16f :: "real \<Rightarrow> real" where
  "fmt_16f x = of_int (round_half_even (x * 10 ^ 16)) / 10 ^ 16"

definition np_savetxt :: "real list list \<Rightarrow> real list list" where
  "np_savetxt data = map (map fmt_16f) data"

definition np_loadtxt :: "real list list \<Rightarrow> ndarray" where
  "np_loadtxt file =
     (case file of
        [[x]] \<Rightarrow> Arr0 x
      | [r] \<Rightarrow> Arr1 r
      | _ \<Rightarrow> if list_all (\<lambda>r. length r = 1) file then Arr1 (concat file) else Arr2 file)"

text \<open>\<open>save_coeff\<close> returns the content of the file it writes.\<close>

definition save_coeff ::
  "('m, 'v) externals \<Rightarrow> bool \<Rightarrow> ('m, 'n) processor \<Rightarrow> exn + real list list" where
  "save_coeff ex inctime p =
     (case is_pulses_valid p of
        Inl e \<Rightarrow> Inl e
      | Inr _ \<Rightarrow>
          (case get_full_coeffs ex None p of
             Inl e \<Rightarrow> Inl e
           | Inr (Arr0 x) \<Rightarrow> Inl (IndexError ''tuple index out of range'')
           | Inr (Arr1 xs) \<Rightarrow>
               if inctime then Inl (IndexError ''tuple index out of range'')
               else Inr (np_savetxt (map (\<lambda>x. [x]) xs))
           | Inr (Arr2 rows) \<Rightarrow>
               if \<not> list_all (\<lambda>r. length r = length (hd rows)) rows
               then Inl (IndexError ''tuple index out of range'')
               else
                 let coeffs_T = np_transpose rows in
                 if inctime then
                   (case get_full_tlist (pulses p) default_tol of
                      None \<Rightarrow> Inl (TypeError ''float() argument must be a string or a number'')
                    | Some grid \<Rightarrow>
                        if length grid = length coeffs_T
                        then Inr (np_savetxt (map (\<lambda>(t, r). t # r) (zip grid coeffs_T)))
                        else Inl (ValueError ''could not broadcast input array''))
                 else Inr (np_savetxt coeffs_T)))"

text \<open>\<open>set_all_tlist\<close> called with a NumPy array: the grid goes to every pulse.\<close>

definition set_all_tlist :: "real list \<Rightarrow> ('m, 'n) processor \<Rightarrow> ('m, 'n) processor" where
  "set_all_tlist g p = p\<lparr>pulses := map (\<lambda>x. x\<lparr>tlist := Some g\<rparr>) (pulses p)\<rparr>"

text \<open>The property \<open>coeffs\<close>: its getter and its setter.\<close>

definition coeffs :: "('m, 'n) processor \<Rightarrow> coeff_val list option" where
  "coeffs p = (if pulses p = [] then None else Some (map coeff (pulses p)))"

fun set_coeffs_from :: "nat \<Rightarrow> coeff_val list \<Rightarrow> 'm pulse list \<Rightarrow> exn + 'm pulse list" where
  "set_coeffs_from i [] ps = Inr ps"
| "set_coeffs_from i (c # cs) ps =
     (if i < length ps then set_coeffs_from (Suc i) cs (ps[i := (ps ! i)\<lparr>coeff := c\<rparr>])
      else Inl (IndexError ''list index out of range''))"

definition set_coeffs :: "coeff_val list \<Rightarrow> ('m, 'n) processor \<Rightarrow> exn + ('m, 'n) processor" where
  "set_coeffs cs p =
     (case set_coeffs_from 0 cs (pulses p) of
        Inl e \<Rightarrow> Inl e
      | Inr ps \<Rightarrow> Inr (p\<lparr>pulses := ps\<rparr>))"

text \<open>
  The values \<open>read_coeff\<close> returns: \<open>self.coeffs\<close>, or the pair of the bound method
  \<open>self.get_full_tlist\<close> (the attribute is not called) and \<open>self.coeffs\<close>.
\<close>

datatype py_value =
    PyArray "real list"
  | PyCoeffs "coeff_val list option"
  | PyBoundMethod string
  | PyTuple py_value py_value

text \<open>
  \<open>read_coeff\<close> on the array \<open>np.loadtxt\<close> returned. Iterating over a one-dimensional
  array yields scalars, which have no \<open>len()\<close>; a zero-dimensional array cannot be
  iterated over or indexed.
\<close>

definition read_coeff ::
  "ndarray \<Rightarrow> bool \<Rightarrow> ('m, 'n) processor \<Rightarrow> exn + ('m, 'n) processor \<times> py_value" where
  "read_coeff data inctime p =
     (if \<not> inctime then
        (case data of
           Arr0 x \<Rightarrow> Inl (TypeError ''iteration over a 0-d array'')
         | _ \<Rightarrow>
             (case set_coeffs (case data of
                                 Arr1 xs \<Rightarrow> map (\<lambda>x. COther None) xs
                               | Arr2 rows \<Rightarrow> map CArray (np_transpose rows)) p of
                Inl e \<Rightarrow> Inl e
              | Inr p' \<Rightarrow> Inr (p', PyCoeffs (coeffs p'))))
      else
        (case data of
           Arr0 x \<Rightarrow> Inl (IndexError ''too many indices for array'')
         | Arr1 xs \<Rightarrow> Inl (IndexError ''too many indices for array'')
         | Arr2 rows \<Rightarrow>
             if list_ex (\<lambda>r. r = []) rows then Inl (IndexError ''index 0 is out of bounds'')
             else
               let grid = map hd rows;
                   p1 = set_all_tlist grid p
               in case set_coeffs (map CArray (np_transpose (map tl rows))) p1 of
                    Inl e \<Rightarrow> Inl e
                  | Inr p2 \<Rightarrow>
                      Inr (p2, PyTuple (PyBoundMethod ''get_full_tlist'') (PyCoeffs (coeffs p2)))))"

subsection \<open>get_noisy_pulses on a store of pulse objects\<close>

text \<open>
  For the claims about object identity the pulses live in a store: the address \<open>a\<close> is
  allocated when \<open>a < length st\<close> and holds the pulse \<open>st ! a\<close>; \<open>self.pulses\<close> is a list
  of addresses, and a new object gets the address \<open>length st\<close>.
\<close>

type_synonym addr = nat

text \<open>
  \<open>deepcopy\<close> of a list of pulses: every pulse is copied to a new address; the memo of
  \<open>deepcopy\<close> maps an object met before to the copy made then.
\<close>

fun deepcopy_from ::
  "'m pulse list \<Rightarrow> (addr \<times> addr) list \<Rightarrow> addr list \<Rightarrow> 'm pulse list \<times> addr list" where
  "deepcopy_from st memo [] = (st, [])"
| "deepcopy_from st memo (a # as) =
     (case map_of memo a of
        Some c \<Rightarrow> (case deepcopy_from st memo as of (st', cs) \<Rightarrow> (st', c # cs))
      | None \<Rightarrow>
          (case deepcopy_from (st @ [st ! a]) ((a, length st) # memo) as of
             (st', cs) \<Rightarrow> (st', length st # cs)))"

definition deepcopy :: "'m pulse list \<Rightarrow> addr list \<Rightarrow> 'm pulse list \<times> addr list" where
  "deepcopy st as = deepcopy_from st [] as"

text \<open>
  Modelled from the spec: \<open>process_noise\<close> (qutip/qip/noise.py) is not under src/. It
  is a parameter that takes the store and the addresses of the pulses handed to it and
  returns the new store and the addresses of the noisy pulses. By section 4.4 its
  output consists of the pulses it was given, possibly perturbed, and of new terms:
  it allocates, it writes only to the pulses handed to it, and it returns only these
  or new objects.
\<close>

definition noise_frame ::
  "('m pulse list \<Rightarrow> addr list \<Rightarrow> 'n list \<Rightarrow> nat list \<Rightarrow> relax \<Rightarrow> relax \<Rightarrow> bool
      \<Rightarrow> 'm pulse list \<times> addr list) \<Rightarrow> bool" where
  "noise_frame process_noise =
     (\<forall>st as ns ds r1 r2 dn.
        case process_noise st as ns ds r1 r2 dn of
          (st', rs) \<Rightarrow>
            length st \<le> length st' \<and>
            (\<forall>a < length st. a \<notin> set as \<longrightarrow> st' ! a = st ! a) \<and>
            (\<forall>r \<in> set rs. r \<in> set as \<or> length st \<le> r))"

text \<open>An element of the returned list: a pulse in the store, or the processor's drift.\<close>

datatype noisy_ref = PulseRef addr | DriftRef

text \<open>
  \<open>get_noisy_pulses\<close>: the state is the store and the list \<open>self.pulses\<close>; the other
  attributes are read from \<open>p\<close>. It returns the new state and the returned list.
\<close>

definition get_noisy_pulses ::
  "('m pulse list \<Rightarrow> addr list \<Rightarrow> 'n list \<Rightarrow> nat list \<Rightarrow> relax \<Rightarrow> relax \<Rightarrow> bool
      \<Rightarrow> 'm pulse list \<times> addr list) \<Rightarrow>
   bool \<Rightarrow> bool \<Rightarrow> ('m, 'n) processor \<Rightarrow> 'm pulse list \<times> addr list \<Rightarrow>
   ('m pulse list \<times> addr list) \<times> noisy_ref list" where
  "get_noisy_pulses process_noise device_noise with_drift p state =
     (case state of
        (st, self_pulses) \<Rightarrow>
          (case deepcopy st self_pulses of
             (st1, copied) \<Rightarrow>
               (case process_noise st1 copied (noise p) (dims p) (t1 p) (t2 p) device_noise of
                  (st2, noisy) \<Rightarrow>
                    let noisy_pulses = map PulseRef noisy;
                        noisy_pulses = (if with_drift then noisy_pulses @ [DriftRef] else noisy_pulses)
                    in ((st2, self_pulses), noisy_pulses))))"

text \<open>
  A noise process for the examples: it switches every pulse it is given on and adds one
  new pulse.
\<close>

definition example_noise ::
  "unit pulse list \<Rightarrow> addr list \<Rightarrow> unit list \<Rightarrow> nat list \<Rightarrow> relax \<Rightarrow> relax \<Rightarrow> bool
     \<Rightarrow> unit pulse list \<times> addr list" where
  "example_noise st as ns ds r1 r2 dn =
     (fold (\<lambda>a s. s[a := (s ! a)\<lparr>coeff := CBool True\<rparr>]) as st
        @ [Pulse \<lparr>qdata = (), qdims = [2], isherm = True\<rparr> [0] None (Some ''noise'')],
      as @ [length st])"

subsection \<open>Example values\<close>

definition example_qobj :: "unit Qobj" where
  "example_qobj = \<lparr>qdata = (), qdims = [2], isherm = True\<rparr>"

definition example_pulse :: "coeff_val \<Rightarrow> real list option \<Rightarrow> string \<Rightarrow> unit pulse" where
  "example_pulse c g k =
     \<lparr>qobj = example_qobj, targets = [0], tlist = g, coeff = c, spline_kind = Some k, label = None\<rparr>"

text \<open>
  Modelled from the spec: \<open>_fill_coeff\<close> (qutip/qip/pulse.py) is not under src/. By
  section 4.2, for \<open>step_func\<close> a coefficient sequence one shorter than its grid is
  extended by \<open>0\<close>, and a point of the full grid takes the value of the last local grid
  point at or before it, and \<open>0\<close> outside the span of the local grid.
\<close>

definition spec_fill_step :: "real list \<Rightarrow> real list \<Rightarrow> real list \<Rightarrow> exn + real list" where
  "spec_fill_step c g full =
     (let c' = (if Suc (length c) = length g then c @ [0] else c) in
      if g = [] \<or> length c' < length g then Inl (IndexError ''index out of bounds'')
      else Inr (map (\<lambda>t. if t < hd g \<or> last g < t then 0
                          else c' ! (length (filter (\<lambda>s. s \<le> t) g) - 1)) full))"

text \<open>
  Modelled from the spec: for \<open>cubic\<close> the spline passes through the coefficients at
  the points of the local grid and the result is \<open>0\<close> outside its span. The spline
  between the points of the local grid is not modelled: there the example raises.
\<close>

definition spec_fill_cubic :: "real list \<Rightarrow> real list \<Rightarrow> real list \<Rightarrow> exn + real list" where
  "spec_fill_cubic c g full =
     (if length c \<noteq> length g \<or> length g < 2
      then Inl (ValueError ''The length of y does not match the length of x'')
      else if list_all (\<lambda>t. t < hd g \<or> last g < t \<or> t \<in> set g) full
      then Inr (map (\<lambda>t. if t < hd g \<or> last g < t then 0
                          else c ! (length (filter (\<lambda>s. s \<le> t) g) - 1)) full)
      else Inl (ValueError ''the spline between the grid points is outside the example''))"

text \<open>
  The values of the example: the operator algebra is free, so every value is the
  expression the program has built.
\<close>

datatype example_value =
    Int0
  | State string
  | Expanded "int list" "nat list"
  | Plus example_value example_value
  | Times real example_value
  | Expm example_value real
  | GlobalPhase real nat

definition example_externals :: "(unit, example_value) externals" where
  "example_externals =
     \<lparr>fill_coeff = (\<lambda>c t f step.
          case (t, f) of
            (Some g, Some full) \<Rightarrow> if step then spec_fill_step c g full else spec_fill_cubic c g full
          | _ \<Rightarrow> Inl (TypeError msg_none_len)),
      get_ideal_qobj = (\<lambda>x d. Expanded (targets x) d),
      drift_get_qobj = (\<lambda>x d. Expanded (snd x) d),
      py_zero = Int0, py_add = Plus, py_scale = Times,
      step_expm = Expm,
      eliminate_auxillary_modes = (\<lambda>u. u),
      globalphase = GlobalPhase\<rparr>"

definition example_processor :: "unit pulse list \<Rightarrow> string \<Rightarrow> (unit, unit) processor" where
  "example_processor ps k = (init_processor 1 RNone RNone None (Some k))\<lparr>pulses := ps\<rparr>"

text \<open>
  A processor of a subclass with two drift terms, two pulses on different grids and a
  recorded global phase.
\<close>

definition example_run :: "(unit, unit) processor" where
  "example_run =
     (example_processor
        [example_pulse (CArray [5, 7]) (Some [0, 1, 3]) ''step_func'',
         (example_pulse (CArray [2, 4]) (Some [0, 3]) ''step_func'')\<lparr>targets := [1]\<rparr>]
        ''step_func'')
     \<lparr>num_qubits := 2, dims := [2, 2], drift := [(example_qobj, [0, 1]), (example_qobj, [1])],
      correct_global_phase := Some True, global_phase := Some (1 / 2)\<rparr>"

section \<open>Properties of add_control\<close>

lemma fold_cyclic_step:
  "fold (cyclic_step n kind q ts lbl) is ps =
     ps @ map (\<lambda>i. Pulse q (map (\<lambda>t. (t + int i) mod int n) ts) kind lbl) is"
  by (induction "is" arbitrary: ps) (simp_all add: cyclic_step_def)

lemma add_control_cyclic_eq:
  assumes "isherm q"
  shows "add_control (IsQobj q) ta True lbl p =
           Inr (p\<lparr>pulses := pulses p @
                  map (\<lambda>i. Pulse q (map (\<lambda>t. (t + int i) mod int (num_qubits p)) (norm_targets q ta))
                              (proc_spline_kind p) lbl) [0 ..< num_qubits p]\<rparr>)"
  using assms by (simp add: add_control_def fold_cyclic_step)

text \<open>
  C4. When the operator is Hermitian, \<open>add_control\<close> with \<open>cyclic_permutation=True\<close>
  and the target list \<open>ts\<close> appends exactly \<open>N\<close> pulses to the stored list, and the
  \<open>i\<close>-th of them has the targets \<open>[(t + i) mod N for t in ts]\<close>.
\<close>

theorem add_control_cyclic_targets:
  assumes "isherm q"
  shows "\<exists>new. add_control (IsQobj q) (TList ts) True lbl p = Inr (p\<lparr>pulses := pulses p @ new\<rparr>)
           \<and> length new = num_qubits p
           \<and> map targets new =
               map (\<lambda>i. map (\<lambda>t. (t + int i) mod int (num_qubits p)) ts) [0 ..< num_qubits p]"
proof -
  let ?new = "map (\<lambda>i. Pulse q (map (\<lambda>t. (t + int i) mod int (num_qubits p))
                                   (norm_targets q (TList ts)))
                              (proc_spline_kind p) lbl) [0 ..< num_qubits p]"
  have "add_control (IsQobj q) (TList ts) True lbl p = Inr (p\<lparr>pulses := pulses p @ ?new\<rparr>)"
    using assms by (rule add_control_cyclic_eq)
  moreover have "length ?new = num_qubits p" by simp
  moreover have "map targets ?new =
        map (\<lambda>i. map (\<lambda>t. (t + int i) mod int (num_qubits p)) ts) [0 ..< num_qubits p]"
    by (simp add: Pulse_def comp_def norm_targets_def)
  ultimately show ?thesis by blast
qed

text \<open>The instance of the specification: \<open>N = 3\<close> and targets \<open>[0, 1]\<close>.\<close>

theorem add_control_cyclic_targets_witness:
  "isherm \<lparr>qdata = (), qdims = [2, 2], isherm = True\<rparr> \<and>
   (\<exists>new. add_control (IsQobj \<lparr>qdata = (), qdims = [2, 2], isherm = True\<rparr>) (TList [0, 1]) True None
             (init_processor 3 RNone RNone None (Some ''step_func'') :: (unit, unit) processor)
           = Inr ((init_processor 3 RNone RNone None (Some ''step_func''))\<lparr>pulses := new\<rparr>)
         \<and> length new = 3
         \<and> map targets new = [[0, 1], [1, 2], [2, 0]])"
  using add_control_cyclic_targets [of "\<lparr>qdata = (), qdims = [2, 2], isherm = True\<rparr>" "[0, 1]" None
      "init_processor 3 RNone RNone None (Some ''step_func'') :: (unit, unit) processor"]
  by (simp add: init_processor_def upt_rec)

text \<open>
  C10. When the operator is Hermitian, \<open>add_control\<close> with \<open>cyclic_permutation=True\<close>
  and a label \<open>L\<close> that is not \<open>None\<close> gives each of the \<open>N\<close> pulses it creates the
  label \<open>L\<close> itself; none carries the label suffixed with its targets.
\<close>

theorem add_control_cyclic_label:
  assumes "isherm q"
  shows "\<exists>new. add_control (IsQobj q) ta True (Some L) p = Inr (p\<lparr>pulses := pulses p @ new\<rparr>)
           \<and> length new = num_qubits p
           \<and> map label new = replicate (num_qubits p) (Some L)
           \<and> list_all (\<lambda>x. label x \<noteq> Some (L @ ''_'' @ str_int_list (targets x))) new"
proof -
  let ?new = "map (\<lambda>i. Pulse q (map (\<lambda>t. (t + int i) mod int (num_qubits p)) (norm_targets q ta))
                              (proc_spline_kind p) (Some L)) [0 ..< num_qubits p]"
  have "add_control (IsQobj q) ta True (Some L) p = Inr (p\<lparr>pulses := pulses p @ ?new\<rparr>)"
    using assms by (rule add_control_cyclic_eq)
  moreover have "length ?new = num_qubits p" by simp
  moreover have "map label ?new = replicate (num_qubits p) (Some L)"
    by (simp add: Pulse_def comp_def map_replicate_const)
  moreover have "list_all (\<lambda>x. label x \<noteq> Some (L @ ''_'' @ str_int_list (targets x))) ?new"
    by (simp add: list_all_iff Pulse_def)
  ultimately show ?thesis by blast
qed

theorem add_control_cyclic_label_witness:
  "isherm \<lparr>qdata = (), qdims = [2], isherm = True\<rparr> \<and>
   (\<exists>new. add_control (IsQobj \<lparr>qdata = (), qdims = [2], isherm = True\<rparr>) TNone True (Some ''sx'')
             (init_processor 2 RNone RNone None (Some ''step_func'') :: (unit, unit) processor)
           = Inr ((init_processor 2 RNone RNone None (Some ''step_func''))\<lparr>pulses := new\<rparr>)
         \<and> length new = 2
         \<and> map label new = [Some ''sx'', Some ''sx''])"
  using add_control_cyclic_label [of "\<lparr>qdata = (), qdims = [2], isherm = True\<rparr>" TNone "''sx''"
      "init_processor 2 RNone RNone None (Some ''step_func'') :: (unit, unit) processor"]
  by (auto simp add: init_processor_def eval_nat_numeral)

section \<open>Properties of get_full_tlist\<close>

lemma mask_index_Cons [simp]:
  "mask_index (x # xs) (b # bs) = (if b then x # mask_index xs bs else mask_index xs bs)"
  by (simp add: mask_index_def)

lemma mask_index_Nil [simp]: "mask_index [] bs = []" "mask_index xs [] = []"
  by (simp_all add: mask_index_def)

lemma mask_diff_collapse:
  "mask_index ts (map (\<lambda>d. d > tol) (np_diff (t # ts))) = collapse_adjacent tol t ts"
  by (induction ts arbitrary: t) (auto simp: not_less)

lemma grids_empty_iff:
  "(concat (map (\<lambda>x. case tlist x of None \<Rightarrow> [] | Some g \<Rightarrow> [g]) ps) = []) = (\<forall>x \<in> set ps. tlist x = None)"
  by (induction ps) (auto split: option.splits)

lemma concat_grids:
  "concat (concat (map (\<lambda>x. case tlist x of None \<Rightarrow> [] | Some g \<Rightarrow> [g]) ps)) =
   concat (map (\<lambda>x. case tlist x of None \<Rightarrow> [] | Some g \<Rightarrow> g) ps)"
  by (induction ps) (auto split: option.splits)

lemma get_full_tlist_eq:
  "get_full_tlist ps tol =
     (if \<forall>x \<in> set ps. tlist x = None then None
      else case np_unique_sort (all_points ps) of
             [] \<Rightarrow> Some []
           | t # ts \<Rightarrow> Some (t # collapse_adjacent tol t ts))"
proof -
  let ?g = "concat (map (\<lambda>x. case tlist x of None \<Rightarrow> [] | Some g \<Rightarrow> [g]) ps)"
  have "get_full_tlist ps tol =
      (if ?g = [] then None
       else Some (take 1 (np_unique_sort (concat ?g)) @
                    mask_index (drop 1 (np_unique_sort (concat ?g)))
                      (map (\<lambda>d. d > tol) (np_diff (np_unique_sort (concat ?g))))))"
    by (simp only: get_full_tlist_def Let_def)
  also have "\<dots> = (if \<forall>x \<in> set ps. tlist x = None then None
      else case np_unique_sort (all_points ps) of
             [] \<Rightarrow> Some []
           | t # ts \<Rightarrow> Some (t # collapse_adjacent tol t ts))"
    unfolding grids_empty_iff concat_grids all_points_def
    by (cases "np_unique_sort (concat (map (\<lambda>x. case tlist x of None \<Rightarrow> [] | Some g \<Rightarrow> g) ps))")
       (simp_all add: mask_diff_collapse)
  finally show ?thesis .
qed

lemma strict_sorted_remdups_adj:
  "sorted xs \<Longrightarrow> sorted_wrt (<) (remdups_adj (xs :: real list))"
  by (induction xs rule: remdups_adj.induct) (auto simp: less_le)

lemma np_unique_sort_props:
  "sorted_wrt (<) (np_unique_sort xs)" "set (np_unique_sort xs) = set xs"
  unfolding np_unique_sort_def
  by (simp_all add: strict_sorted_remdups_adj)

lemma collapse_adjacent_subset: "set (collapse_adjacent tol r xs) \<subseteq> set xs"
  by (induction xs arbitrary: r) auto

lemma collapse_adjacent_sorted:
  "sorted_wrt (<) (r # xs) \<Longrightarrow> sorted_wrt (<) (r # collapse_adjacent tol r xs)"
proof (induction xs arbitrary: r)
  case Nil then show ?case by simp
next
  case (Cons x xs)
  have "sorted_wrt (<) (x # collapse_adjacent tol x xs)" using Cons by simp
  moreover have "\<forall>y \<in> set (collapse_adjacent tol x xs). r < y"
    using Cons.prems collapse_adjacent_subset [of tol x xs] by auto
  ultimately show ?case using Cons.prems by auto
qed

text \<open>
  C2, as stated, fails: on the single grid \<open>[0, 6e-11, 1.2e-10]\<close> the code returns
  \<open>[0]\<close>, because both gaps between neighbours are below the tolerance, while the
  rule "drop a point whose gap to the previous retained point is at or below the
  tolerance" keeps \<open>1.2e-10\<close>, whose gap to the retained \<open>0\<close> exceeds \<open>1e-10\<close>.
\<close>

theorem get_full_tlist_not_retained_gap:
  "get_full_tlist [example_pulse CNone (Some [0, 6 / 10 ^ 11, 12 / 10 ^ 11]) ''step_func''] default_tol
     = Some [0] \<and>
   spec_full_tlist [example_pulse CNone (Some [0, 6 / 10 ^ 11, 12 / 10 ^ 11]) ''step_func''] default_tol
     = Some [0, 12 / 10 ^ 11]"
  by (simp add: get_full_tlist_def spec_full_tlist_def example_pulse_def default_tol_def
        np_unique_sort_def)

text \<open>
  C2, amended. \<open>get_full_tlist\<close> returns \<open>None\<close> when no pulse has a grid. Otherwise it
  returns the sorted union of the grids (exact duplicates removed) from which every point
  is dropped whose gap to its immediate predecessor in the sorted union is at or below
  the tolerance; the first point is always retained. The result is strictly ascending
  and consists of points of the grids.
\<close>

theorem get_full_tlist_adjacent_gap:
  "get_full_tlist ps tol =
     (if \<forall>x \<in> set ps. tlist x = None then None
      else case np_unique_sort (all_points ps) of
             [] \<Rightarrow> Some []
           | t # ts \<Rightarrow> Some (t # collapse_adjacent tol t ts)) \<and>
   (\<forall>r. get_full_tlist ps tol = Some r \<longrightarrow> sorted_wrt (<) r \<and> set r \<subseteq> set (all_points ps))"
proof (intro conjI allI impI)
  show eq: "get_full_tlist ps tol =
     (if \<forall>x \<in> set ps. tlist x = None then None
      else case np_unique_sort (all_points ps) of
             [] \<Rightarrow> Some []
           | t # ts \<Rightarrow> Some (t # collapse_adjacent tol t ts))"
    by (rule get_full_tlist_eq)
  fix r
  assume r: "get_full_tlist ps tol = Some r"
  show "sorted_wrt (<) r"
  proof (cases "np_unique_sort (all_points ps)")
    case Nil
    with r eq show ?thesis by (simp split: if_splits)
  next
    case (Cons t ts)
    then have "sorted_wrt (<) (t # ts)" using np_unique_sort_props(1) [of "all_points ps"] by simp
    then have "sorted_wrt (<) (t # collapse_adjacent tol t ts)" by (rule collapse_adjacent_sorted)
    with r eq Cons show ?thesis by (auto split: if_splits)
  qed
  show "set r \<subseteq> set (all_points ps)"
  proof (cases "np_unique_sort (all_points ps)")
    case Nil
    with r eq show ?thesis by (simp split: if_splits)
  next
    case (Cons t ts)
    then have "set (t # ts) = set (all_points ps)" using np_unique_sort_props(2) [of "all_points ps"] by simp
    moreover have "set (t # collapse_adjacent tol t ts) \<subseteq> set (t # ts)"
      using collapse_adjacent_subset [of tol t ts] by auto
    ultimately have "set (t # collapse_adjacent tol t ts) \<subseteq> set (all_points ps)" by simp
    with r eq Cons show ?thesis by (auto split: if_splits)
  qed
qed

text \<open>The instance of the specification: the grids \<open>[0, 1, 2]\<close> and \<open>[0, 1 + 1e-11, 2]\<close>.\<close>

theorem get_full_tlist_adjacent_gap_witness:
  "get_full_tlist [example_pulse CNone (Some [0, 1, 2]) ''step_func'',
                   example_pulse CNone None ''step_func'',
                   example_pulse CNone (Some [0, 1 + 1 / 10 ^ 11, 2]) ''step_func''] default_tol
     = Some [0, 1, 2] \<and>
   get_full_tlist [example_pulse CNone None ''step_func''] default_tol = None"
  using get_full_tlist_adjacent_gap [of "[example_pulse CNone (Some [0, 1, 2]) ''step_func'',
                   example_pulse CNone None ''step_func'',
                   example_pulse CNone (Some [0, 1 + 1 / 10 ^ 11, 2]) ''step_func'']" default_tol]
        get_full_tlist_adjacent_gap [of "[example_pulse CNone None ''step_func'']" default_tol]
  by (simp add: example_pulse_def default_tol_def np_unique_sort_def all_points_def)

section \<open>Properties of _is_pulses_valid\<close>

lemma check_pulse_None_iff: "check_pulse i x = None \<longleftrightarrow> spec_pulse_valid x"
  by (cases "coeff x" rule: py_len.cases; cases "tlist x")
     (auto simp: check_pulse_def spec_pulse_valid_def Let_def)

lemma check_pulse_numeric_error:
  assumes "\<not> spec_pulse_valid x" and "tlist x = None \<or> (\<exists>n. py_len (coeff x) = Inr n)"
  shows "check_pulse i x =
           Some (ValueError (if tlist x = None then msg_no_tlist i
                             else if spline_kind x = Some ''step_func'' then msg_step_func i
                             else msg_cubic i))"
  using assms
  by (cases "coeff x" rule: py_len.cases; cases "tlist x")
     (auto simp: check_pulse_def spec_pulse_valid_def Let_def split: if_splits)

lemma is_pulses_valid_from_ok:
  "is_pulses_valid_from i xs = Inr True \<longleftrightarrow> (\<forall>x \<in> set xs. spec_pulse_valid x)"
proof (induction xs arbitrary: i)
  case Nil
  show ?case by simp
next
  case (Cons x xs)
  show ?case
  proof (cases "check_pulse i x")
    case None
    then have "spec_pulse_valid x" by (simp add: check_pulse_None_iff)
    with None Cons show ?thesis by simp
  next
    case (Some e)
    then have "\<not> spec_pulse_valid x" using check_pulse_None_iff [of i x] by simp
    with Some show ?thesis by simp
  qed
qed

lemma is_pulses_valid_from_never_False: "is_pulses_valid_from i xs \<noteq> Inr False"
  by (induction xs arbitrary: i) (auto split: option.splits)

lemma is_pulses_valid_from_first_error:
  assumes "k < length xs" and "\<forall>j<k. spec_pulse_valid (xs ! j)"
    and "check_pulse (i + k) (xs ! k) = Some e"
  shows "is_pulses_valid_from i xs = Inl e"
  using assms
proof (induction xs arbitrary: i k)
  case Nil
  then show ?case by simp
next
  case (Cons x xs)
  show ?case
  proof (cases k)
    case 0
    with Cons.prems show ?thesis by simp
  next
    case (Suc k')
    have "spec_pulse_valid x" using Cons.prems(2) Suc by auto
    then have c: "check_pulse i x = None" by (simp add: check_pulse_None_iff)
    have "is_pulses_valid_from (Suc i) xs = Inl e"
    proof (rule Cons.IH [of k'])
      show "k' < length xs" using Cons.prems(1) Suc by simp
      show "\<forall>j<k'. spec_pulse_valid (xs ! j)" using Cons.prems(2) Suc by auto
      show "check_pulse (Suc i + k') (xs ! k') = Some e" using Cons.prems(3) Suc by simp
    qed
    with c show ?thesis by simp
  qed
qed

lemma digit_of_digit_char: "d < 10 \<Longrightarrow> digit_of (digit_char d) = Some d"
  by (simp add: digit_of_def digit_char_def Let_def)

lemma decimal_from_snoc:
  "decimal_from acc (s @ [c]) =
     (case decimal_from acc s of
        None \<Rightarrow> None
      | Some v \<Rightarrow> (case digit_of c of None \<Rightarrow> None | Some d \<Rightarrow> Some (10 * v + d)))"
  by (induction s arbitrary: acc) (auto split: option.splits)

lemma str_nat_not_Nil: "str_nat n \<noteq> []"
  by (subst str_nat.simps) simp

lemma decimal_from_str_nat: "decimal_from 0 (str_nat n) = Some n"
proof (induction n rule: str_nat.induct)
  case (1 n)
  show ?case
  proof (cases "n < 10")
    case True
    then show ?thesis
      by (subst str_nat.simps) (simp add: digit_of_digit_char)
  next
    case False
    then have ih: "decimal_from 0 (str_nat (n div 10)) = Some (n div 10)" using 1 by simp
    have "n mod 10 < 10" by simp
    then have d: "digit_of (digit_char (n mod 10)) = Some (n mod 10)" by (rule digit_of_digit_char)
    show ?thesis
      using False by (subst str_nat.simps) (simp add: decimal_from_snoc ih d)
  qed
qed

lemma str_nat_small: "str_nat 0 = ''0''" "str_nat 1 = ''1''" "str_nat 2 = ''2''"
  by code_simp+

lemma decimal_value_str_nat: "decimal_value (str_nat n) = Some n"
  by (simp add: decimal_value_def str_nat_not_Nil decimal_from_str_nat)

text \<open>
  C3, as stated, fails for a coefficient without a length. On a callable coefficient
  with a grid the validator reaches \<open>len(pulse.coeff)\<close>, which raises a TypeError
  that names no position.
\<close>

theorem is_pulses_valid_callable_with_grid:
  "is_pulses_valid (example_processor
      [example_pulse (COther None) (Some [0, 1]) ''step_func''] ''step_func'')
     = Inl (TypeError ''object has no len()'')"
  by (simp add: is_pulses_valid_def example_processor_def example_pulse_def check_pulse_def)

text \<open>
  C3, amended. The validator returns \<open>True\<close> exactly when every pulse is well formed in
  the sense of the specification: a coefficient that is absent or boolean is skipped,
  any other needs a grid and \<open>len(coeff)\<close> equal to \<open>len(tlist) - 1\<close> or \<open>len(tlist)\<close> for
  \<open>step_func\<close>, and to \<open>len(tlist)\<close> for every other kind. It never returns \<open>False\<close>.
  When the first pulse that is not well formed stands at position \<open>i\<close>, and its grid
  is missing or its coefficient has a length, the validator raises a ValueError with
  the message of the source, in which the position is written as the decimal numeral
  of \<open>i\<close>.
\<close>

theorem is_pulses_valid_contract:
  "(is_pulses_valid p = Inr True \<longleftrightarrow> (\<forall>x \<in> set (pulses p). spec_pulse_valid x)) \<and>
   is_pulses_valid p \<noteq> Inr False \<and>
   (\<forall>i < length (pulses p).
      (\<forall>j<i. spec_pulse_valid (pulses p ! j)) \<and> \<not> spec_pulse_valid (pulses p ! i) \<and>
      (tlist (pulses p ! i) = None \<or> (\<exists>n. py_len (coeff (pulses p ! i)) = Inr n)) \<longrightarrow>
      is_pulses_valid p =
        Inl (ValueError
          (if tlist (pulses p ! i) = None
           then ''Pulse id='' @ str_nat i @ '' is invalid. Please define a tlist for the pulse.''
           else if spline_kind (pulses p ! i) = Some ''step_func''
           then ''The length of tlist and coeff of the pulse labelled '' @ str_nat i @
                '' is invalid. It'' @ [CHR 0x27] @ ''s either len(tlist)=len(coeff) or '' @
                ''len(tlist)-1=len(coeff) for coefficients as step function''
           else ''The length of tlist and coeff of the pulse labelled '' @ str_nat i @
                '' is invalid. It should be either len(tlist)=len(coeff)'')) \<and>
      decimal_value (str_nat i) = Some i)"
proof (intro conjI allI impI)
  show "is_pulses_valid p = Inr True \<longleftrightarrow> (\<forall>x \<in> set (pulses p). spec_pulse_valid x)"
    by (simp add: is_pulses_valid_def is_pulses_valid_from_ok)
  show "is_pulses_valid p \<noteq> Inr False"
    by (simp add: is_pulses_valid_def is_pulses_valid_from_never_False)
next
  fix i
  assume i: "i < length (pulses p)"
    and h: "(\<forall>j<i. spec_pulse_valid (pulses p ! j)) \<and> \<not> spec_pulse_valid (pulses p ! i) \<and>
      (tlist (pulses p ! i) = None \<or> (\<exists>n. py_len (coeff (pulses p ! i)) = Inr n))"
  let ?e = "ValueError (if tlist (pulses p ! i) = None then msg_no_tlist i
                         else if spline_kind (pulses p ! i) = Some ''step_func'' then msg_step_func i
                         else msg_cubic i)"
  have "check_pulse (0 + i) (pulses p ! i) = Some ?e"
    using h check_pulse_numeric_error [of "pulses p ! i" i] by simp
  with i h have "is_pulses_valid_from 0 (pulses p) = Inl ?e"
    by (intro is_pulses_valid_from_first_error [of i]) auto
  then show "is_pulses_valid p =
        Inl (ValueError
          (if tlist (pulses p ! i) = None
           then ''Pulse id='' @ str_nat i @ '' is invalid. Please define a tlist for the pulse.''
           else if spline_kind (pulses p ! i) = Some ''step_func''
           then ''The length of tlist and coeff of the pulse labelled '' @ str_nat i @
                '' is invalid. It'' @ [CHR 0x27] @ ''s either len(tlist)=len(coeff) or '' @
                ''len(tlist)-1=len(coeff) for coefficients as step function''
           else ''The length of tlist and coeff of the pulse labelled '' @ str_nat i @
                '' is invalid. It should be either len(tlist)=len(coeff)''))"
    by (simp add: is_pulses_valid_def msg_no_tlist_def msg_step_func_def msg_cubic_def)
next
  fix i
  show "decimal_value (str_nat i) = Some i" by (rule decimal_value_str_nat)
qed

theorem is_pulses_valid_contract_witness:
  "is_pulses_valid (example_processor
      [example_pulse (CBool True) None ''step_func'',
       example_pulse (CArray [1, 2]) (Some [0, 1, 2]) ''step_func'',
       example_pulse (CArray [1, 2, 3]) (Some [0, 1, 2]) ''step_func'',
       example_pulse (CArray [1, 2, 3]) (Some [0, 1, 2]) ''cubic''] ''step_func'') = Inr True \<and>
   is_pulses_valid (example_processor
      [example_pulse CNone None ''step_func'',
       example_pulse (CArray [1, 2, 3, 4]) (Some [0, 1, 2]) ''step_func''] ''step_func'')
     = Inl (ValueError (''The length of tlist and coeff of the pulse labelled 1 is invalid. It'' @
                        [CHR 0x27] @ ''s either len(tlist)=len(coeff) or '' @
                        ''len(tlist)-1=len(coeff) for coefficients as step function'')) \<and>
   is_pulses_valid (example_processor
      [example_pulse (CArray [1, 2]) (Some [0, 1, 2]) ''cubic''] ''step_func'')
     = Inl (ValueError (''The length of tlist and coeff of the pulse labelled 0 is invalid. '' @
                        ''It should be either len(tlist)=len(coeff)'')) \<and>
   is_pulses_valid (example_processor
      [example_pulse (CArray [1, 2]) None ''cubic''] ''step_func'')
     = Inl (ValueError ''Pulse id=0 is invalid. Please define a tlist for the pulse.'') \<and>
   decimal_value ''1'' = Some 1"
proof -
  note unfold = example_processor_def example_pulse_def spec_pulse_valid_def
    str_nat_small str_nat_small(2) [simplified]
  have a: "is_pulses_valid (example_processor
      [example_pulse (CBool True) None ''step_func'',
       example_pulse (CArray [1, 2]) (Some [0, 1, 2]) ''step_func'',
       example_pulse (CArray [1, 2, 3]) (Some [0, 1, 2]) ''step_func'',
       example_pulse (CArray [1, 2, 3]) (Some [0, 1, 2]) ''cubic''] ''step_func'') = Inr True"
    using is_pulses_valid_contract [of "example_processor
      [example_pulse (CBool True) None ''step_func'',
       example_pulse (CArray [1, 2]) (Some [0, 1, 2]) ''step_func'',
       example_pulse (CArray [1, 2, 3]) (Some [0, 1, 2]) ''step_func'',
       example_pulse (CArray [1, 2, 3]) (Some [0, 1, 2]) ''cubic''] ''step_func''", THEN conjunct1]
    by (simp add: unfold)
  have b: "is_pulses_valid (example_processor
      [example_pulse CNone None ''step_func'',
       example_pulse (CArray [1, 2, 3, 4]) (Some [0, 1, 2]) ''step_func''] ''step_func'')
     = Inl (ValueError (''The length of tlist and coeff of the pulse labelled 1 is invalid. It'' @
                        [CHR 0x27] @ ''s either len(tlist)=len(coeff) or '' @
                        ''len(tlist)-1=len(coeff) for coefficients as step function'')) \<and>
     decimal_value ''1'' = Some 1"
    using is_pulses_valid_contract [of "example_processor
      [example_pulse CNone None ''step_func'',
       example_pulse (CArray [1, 2, 3, 4]) (Some [0, 1, 2]) ''step_func''] ''step_func''",
      THEN conjunct2, THEN conjunct2, rule_format, of 1]
    by (simp add: unfold)
  have c: "is_pulses_valid (example_processor
      [example_pulse (CArray [1, 2]) (Some [0, 1, 2]) ''cubic''] ''step_func'')
     = Inl (ValueError (''The length of tlist and coeff of the pulse labelled 0 is invalid. '' @
                        ''It should be either len(tlist)=len(coeff)''))"
    using is_pulses_valid_contract [of "example_processor
      [example_pulse (CArray [1, 2]) (Some [0, 1, 2]) ''cubic''] ''step_func''",
      THEN conjunct2, THEN conjunct2, rule_format, of 0]
    by (simp add: unfold)
  have d: "is_pulses_valid (example_processor
      [example_pulse (CArray [1, 2]) None ''cubic''] ''step_func'')
     = Inl (ValueError ''Pulse id=0 is invalid. Please define a tlist for the pulse.'')"
    using is_pulses_valid_contract [of "example_processor
      [example_pulse (CArray [1, 2]) None ''cubic''] ''step_func''",
      THEN conjunct2, THEN conjunct2, rule_format, of 0]
    by (simp add: unfold)
  from a b c d show ?thesis by blast
qed

section \<open>Properties of get_full_coeffs\<close>

lemma full_coeff_rows_error:
  assumes "i < length xs" and "\<forall>j<i. \<exists>row. full_coeff_row ex kind g (xs ! j) = Inr row"
    and "full_coeff_row ex kind g (xs ! i) = Inl e"
  shows "full_coeff_rows ex kind g xs acc = Inl e"
  using assms
proof (induction xs arbitrary: i acc)
  case Nil
  then show ?case by simp
next
  case (Cons x xs)
  show ?case
  proof (cases i)
    case 0
    with Cons.prems show ?thesis by simp
  next
    case (Suc k)
    obtain row where row: "full_coeff_row ex kind g x = Inr row"
      using Cons.prems(2) Suc by fastforce
    have "full_coeff_rows ex kind g xs (acc @ [row]) = Inl e"
    proof (rule Cons.IH [of k])
      show "k < length xs" using Cons.prems(1) Suc by simp
      show "\<forall>j<k. \<exists>row. full_coeff_row ex kind g (xs ! j) = Inr row"
        using Cons.prems(2) Suc by auto
      show "full_coeff_row ex kind g (xs ! k) = Inl e" using Cons.prems(3) Suc by simp
    qed
    with row show ?thesis by simp
  qed
qed

lemma full_coeff_rows_raises:
  assumes "x \<in> set xs" and "\<exists>e. full_coeff_row ex kind g x = Inl e"
  shows "\<exists>e. full_coeff_rows ex kind g xs acc = Inl e"
  using assms
  by (induction xs arbitrary: acc) (auto split: sum.splits)

lemma full_coeff_rows_all_ok:
  "full_coeff_rows ex kind g xs acc = Inr rows \<Longrightarrow>
   \<forall>x \<in> set xs. \<exists>row. full_coeff_row ex kind g x = Inr row"
  by (induction xs arbitrary: acc) (auto split: sum.splits)

lemma full_coeff_rows_ok:
  "\<forall>x \<in> set xs. \<exists>row. full_coeff_row ex kind g x = Inr row \<Longrightarrow>
   full_coeff_rows ex kind g xs acc = Inr (acc @ map (\<lambda>x. projr (full_coeff_row ex kind g x)) xs)"
  by (induction xs arbitrary: acc) (auto split: sum.splits)

lemma full_coeff_rows_map:
  assumes "full_coeff_rows ex kind g xs acc = Inr rows"
  shows "rows = acc @ map (\<lambda>x. projr (full_coeff_row ex kind g x)) xs"
  using full_coeff_rows_ok [OF full_coeff_rows_all_ok [OF assms], of acc] assms by simp

lemma full_coeff_row_other:
  "coeff x = COther l \<Longrightarrow> full_coeff_row ex kind g x = Inl (ValueError msg_coeff_type)"
  by (simp add: full_coeff_row_def)

lemma full_coeff_row_constant:
  "is_constant_pulse x \<Longrightarrow>
   full_coeff_row ex kind (Some grid) x = Inr (replicate (length grid) (constant_level x))"
  by (cases "coeff x" rule: is_bool.cases)
     (auto simp add: full_coeff_row_def len_opt_def is_constant_pulse_def constant_level_def)

lemma full_coeff_row_constant_None:
  "is_constant_pulse x \<Longrightarrow> full_coeff_row ex kind None x = Inl (TypeError msg_none_len)"
  by (cases "coeff x" rule: is_bool.cases)
     (auto simp add: full_coeff_row_def len_opt_def is_constant_pulse_def)

lemma constant_pulse_valid: "is_constant_pulse x \<Longrightarrow> spec_pulse_valid x"
  by (cases "coeff x" rule: is_bool.cases)
     (auto simp add: is_constant_pulse_def spec_pulse_valid_def)

lemma get_full_coeffs_cases:
  "get_full_coeffs ex g p = Inr a \<Longrightarrow> pulses p \<noteq> [] \<Longrightarrow>
   a = Arr2 (map (\<lambda>x. projr (full_coeff_row ex (proc_spline_kind p) (resolve_full_tlist g p) x)) (pulses p))
   \<and> (\<forall>x \<in> set (pulses p). \<exists>row. full_coeff_row ex (proc_spline_kind p) (resolve_full_tlist g p) x = Inr row)"
  apply (simp add: get_full_coeffs_def Let_def split: sum.splits)
  using full_coeff_rows_map full_coeff_rows_all_ok by fastforce

text \<open>
  C7, as stated, fails: the exception is not a TypeError. A coefficient with a length
  (a string of six characters on a grid of six points) passes the validator and meets
  \<open>raise ValueError("get_full_coeffs only works for NumPy array or bool coeff.")\<close>; a
  callable coefficient without a grid is stopped by the validator, with a ValueError too.
\<close>

theorem get_full_coeffs_raises_value_error:
  "get_full_coeffs example_externals None
     (example_processor [example_pulse (COther (Some 6)) (Some [0, 1, 2, 3, 4, 5]) ''cubic''] ''cubic'')
     = Inl (ValueError msg_coeff_type) \<and>
   get_full_coeffs example_externals None
     (example_processor [example_pulse (COther None) None ''step_func''] ''step_func'')
     = Inl (ValueError (msg_no_tlist 0)) \<and>
   \<not> is_TypeError (ValueError msg_coeff_type) \<and> \<not> is_TypeError (ValueError (msg_no_tlist 0))"
  by (simp add: get_full_coeffs_def example_processor_def example_pulse_def is_pulses_valid_def
        check_pulse_def full_coeff_row_def init_processor_def)

text \<open>
  C7, amended. When some pulse has a coefficient that is neither absent, nor a boolean,
  nor a NumPy array, \<open>get_full_coeffs\<close> raises and returns no matrix; when the
  validator accepts the pulses and the rows of the pulses before it are computed, the
  exception is the ValueError of the type check. When \<open>get_full_coeffs\<close> returns, the
  row of a pulse without grid and coefficient is all zero, the row of a boolean
  coefficient is all one (true) or all zero (false), each of the length of the
  canonical grid; and on pulses that are all constant, with a grid given, it returns
  these rows.
\<close>

theorem get_full_coeffs_unsupported:
  "(\<forall>i < length (pulses p). \<forall>l. coeff (pulses p ! i) = COther l \<longrightarrow>
      (\<exists>e. get_full_coeffs ex g p = Inl e) \<and>
      (is_pulses_valid p = Inr True \<and>
       (\<forall>j<i. \<exists>row. full_coeff_row ex (proc_spline_kind p) (resolve_full_tlist g p) (pulses p ! j) = Inr row)
       \<longrightarrow> get_full_coeffs ex g p = Inl (ValueError msg_coeff_type))) \<and>
   (\<forall>a. \<forall>k < length (pulses p).
      get_full_coeffs ex g p = Inr a \<and> is_constant_pulse (pulses p ! k) \<longrightarrow>
      (\<exists>grid rows. resolve_full_tlist g p = Some grid \<and> a = Arr2 rows \<and>
         length rows = length (pulses p) \<and>
         rows ! k = replicate (length grid) (constant_level (pulses p ! k)))) \<and>
   (\<forall>grid. pulses p \<noteq> [] \<and> (\<forall>x \<in> set (pulses p). is_constant_pulse x) \<and>
      resolve_full_tlist g p = Some grid \<longrightarrow>
      get_full_coeffs ex g p =
        Inr (Arr2 (map (\<lambda>x. replicate (length grid) (constant_level x)) (pulses p))))"
proof (intro conjI allI impI)
  fix i l
  assume i: "i < length (pulses p)" and c: "coeff (pulses p ! i) = COther l"
  have row: "full_coeff_row ex (proc_spline_kind p) (resolve_full_tlist g p) (pulses p ! i)
               = Inl (ValueError msg_coeff_type)"
    using c by (rule full_coeff_row_other)
  have ne: "pulses p \<noteq> []" using i by auto
  show "\<exists>e. get_full_coeffs ex g p = Inl e"
  proof (cases "is_pulses_valid p")
    case (Inl e)
    then show ?thesis by (simp add: get_full_coeffs_def)
  next
    case (Inr b)
    have "pulses p ! i \<in> set (pulses p)" using i by simp
    then obtain e where
      "full_coeff_rows ex (proc_spline_kind p) (resolve_full_tlist g p) (pulses p) [] = Inl e"
      using full_coeff_rows_raises row by blast
    with Inr ne show ?thesis by (simp add: get_full_coeffs_def)
  qed
next
  fix i l
  assume i: "i < length (pulses p)" and c: "coeff (pulses p ! i) = COther l"
    and h: "is_pulses_valid p = Inr True \<and>
       (\<forall>j<i. \<exists>row. full_coeff_row ex (proc_spline_kind p) (resolve_full_tlist g p) (pulses p ! j) = Inr row)"
  have row: "full_coeff_row ex (proc_spline_kind p) (resolve_full_tlist g p) (pulses p ! i)
               = Inl (ValueError msg_coeff_type)"
    using c by (rule full_coeff_row_other)
  have ne: "pulses p \<noteq> []" using i by auto
  have "full_coeff_rows ex (proc_spline_kind p) (resolve_full_tlist g p) (pulses p) []
          = Inl (ValueError msg_coeff_type)"
    using i h row by (intro full_coeff_rows_error [of i]) auto
  with h ne show "get_full_coeffs ex g p = Inl (ValueError msg_coeff_type)"
    by (simp add: get_full_coeffs_def)
next
  fix a k
  assume k: "k < length (pulses p)"
    and h: "get_full_coeffs ex g p = Inr a \<and> is_constant_pulse (pulses p ! k)"
  let ?row = "\<lambda>x. full_coeff_row ex (proc_spline_kind p) (resolve_full_tlist g p) x"
  let ?rows = "map (\<lambda>x. projr (?row x)) (pulses p)"
  have ne: "pulses p \<noteq> []" using k by auto
  from h ne have a: "a = Arr2 ?rows" and ok: "\<forall>x \<in> set (pulses p). \<exists>row. ?row x = Inr row"
    using get_full_coeffs_cases [of ex g p a] by auto
  have okk: "\<exists>row. ?row (pulses p ! k) = Inr row" using ok k by simp
  obtain grid where grid: "resolve_full_tlist g p = Some grid"
  proof (cases "resolve_full_tlist g p")
    case None
    then have "?row (pulses p ! k) = Inl (TypeError msg_none_len)"
      using h by (simp add: full_coeff_row_constant_None)
    with okk show ?thesis by simp
  next
    case (Some grid)
    then show ?thesis by (rule that)
  qed
  have "?rows ! k = replicate (length grid) (constant_level (pulses p ! k))"
    using k h grid by (simp add: full_coeff_row_constant)
  with a grid show "\<exists>grid rows. resolve_full_tlist g p = Some grid \<and> a = Arr2 rows \<and>
         length rows = length (pulses p) \<and>
         rows ! k = replicate (length grid) (constant_level (pulses p ! k))"
    by simp
next
  fix grid
  assume h: "pulses p \<noteq> [] \<and> (\<forall>x \<in> set (pulses p). is_constant_pulse x) \<and>
      resolve_full_tlist g p = Some grid"
  have "\<forall>x \<in> set (pulses p). spec_pulse_valid x" using h constant_pulse_valid by blast
  then have v: "is_pulses_valid p = Inr True"
    by (simp add: is_pulses_valid_def is_pulses_valid_from_ok)
  have rows: "\<forall>x \<in> set (pulses p). \<exists>row. full_coeff_row ex (proc_spline_kind p) (Some grid) x = Inr row"
    using h by (simp add: full_coeff_row_constant)
  have "full_coeff_rows ex (proc_spline_kind p) (Some grid) (pulses p) [] =
          Inr ([] @ map (\<lambda>x. projr (full_coeff_row ex (proc_spline_kind p) (Some grid) x)) (pulses p))"
    using rows by (rule full_coeff_rows_ok)
  also have "map (\<lambda>x. projr (full_coeff_row ex (proc_spline_kind p) (Some grid) x)) (pulses p)
        = map (\<lambda>x. replicate (length grid) (constant_level x)) (pulses p)"
    using h by (simp add: full_coeff_row_constant)
  finally show "get_full_coeffs ex g p =
        Inr (Arr2 (map (\<lambda>x. replicate (length grid) (constant_level x)) (pulses p)))"
    using v h by (simp add: get_full_coeffs_def)
qed

theorem get_full_coeffs_unsupported_witness:
  "get_full_coeffs example_externals None
     (example_processor [example_pulse (CBool True) (Some [0, 1, 2]) ''cubic'',
                         example_pulse (COther (Some 3)) (Some [0, 1, 2]) ''cubic''] ''cubic'')
     = Inl (ValueError msg_coeff_type) \<and>
   get_full_coeffs example_externals None
     (example_processor [example_pulse (CBool True) (Some [0, 1, 2]) ''cubic'',
                         example_pulse CNone None ''cubic'',
                         example_pulse (CBool False) None ''cubic''] ''cubic'')
     = Inr (Arr2 [[1, 1, 1], [0, 0, 0], [0, 0, 0]])"
  using
    get_full_coeffs_unsupported [of "example_processor [example_pulse (CBool True) (Some [0, 1, 2]) ''cubic'',
                         example_pulse (COther (Some 3)) (Some [0, 1, 2]) ''cubic''] ''cubic''"
        example_externals None, THEN conjunct1, rule_format, of 1 "Some 3", THEN conjunct2]
    get_full_coeffs_unsupported [of "example_processor [example_pulse (CBool True) (Some [0, 1, 2]) ''cubic'',
                         example_pulse CNone None ''cubic'',
                         example_pulse (CBool False) None ''cubic''] ''cubic''"
        example_externals None, THEN conjunct2, THEN conjunct2, rule_format, of "[0, 1, 2]"]
  by (simp add: example_processor_def example_pulse_def is_pulses_valid_def check_pulse_def
        full_coeff_row_def len_opt_def resolve_full_tlist_def get_full_tlist_def default_tol_def
        np_unique_sort_def is_constant_pulse_def constant_level_def init_processor_def)

section \<open>Properties of run_analytically\<close>

lemma index2_ok:
  assumes "list_all (\<lambda>r. length r = L) rows" and "m < length rows" and "n < L"
  shows "index2 (Arr2 rows) m n = Inr (rows ! m ! n)"
proof -
  have all: "\<forall>r \<in> set rows. length r = L" using assms(1) by (simp add: list_all_iff)
  have ne: "rows \<noteq> []" using assms(2) by auto
  then have "hd rows \<in> set rows" by simp
  then have hd: "length (hd rows) = L" using all by blast
  have "length (rows ! m) = L" using all assms(2) by simp
  with all hd assms show ?thesis by (simp add: index2_def list_all_iff)
qed

lemma control_terms_ok:
  assumes "list_all (\<lambda>r. length r = L) rows" and "n < L" and "\<forall>m \<in> set ms. m < length rows"
  shows "control_terms ex p (Arr2 rows) n ms =
           Inr (map (\<lambda>m. py_scale ex (rows ! m ! n) (ctrls ex p ! m)) ms)"
  using assms(3)
proof (induction ms)
  case Nil
  show ?case by simp
next
  case (Cons m ms)
  have "index2 (Arr2 rows) m n = Inr (rows ! m ! n)"
    using assms(1,2) Cons.prems by (intro index2_ok) auto
  moreover have "control_terms ex p (Arr2 rows) n ms =
           Inr (map (\<lambda>m. py_scale ex (rows ! m ! n) (ctrls ex p ! m)) ms)"
    using Cons by simp
  ultimately show ?case by simp
qed

lemma control_terms_all:
  assumes "list_all (\<lambda>r. length r = L) rows" and "n < L" and "length rows = length (pulses p)"
  shows "control_terms ex p (Arr2 rows) n [0 ..< length (ctrls ex p)] =
           Inr (map (\<lambda>m. py_scale ex (rows ! m ! n) (get_ideal_qobj ex (pulses p ! m) (dims p)))
                  [0 ..< length (pulses p)])"
proof -
  have "control_terms ex p (Arr2 rows) n [0 ..< length (ctrls ex p)] =
           Inr (map (\<lambda>m. py_scale ex (rows ! m ! n) (ctrls ex p ! m)) [0 ..< length (ctrls ex p)])"
    using assms by (intro control_terms_ok [of L]) (auto simp: ctrls_def)
  also have "map (\<lambda>m. py_scale ex (rows ! m ! n) (ctrls ex p ! m)) [0 ..< length (ctrls ex p)] =
      map (\<lambda>m. py_scale ex (rows ! m ! n) (get_ideal_qobj ex (pulses p ! m) (dims p)))
                  [0 ..< length (pulses p)]"
    by (simp add: ctrls_def)
  finally show ?thesis .
qed

lemma py_sum_foldl: "py_sum ex vs = foldl (py_add ex) (py_zero ex) vs"
  by (simp add: py_sum_def foldl_conv_fold)

lemma drift_sum_spec: "drift_sum ex p = spec_drift ex p"
  by (simp add: drift_sum_def spec_drift_def foldl_conv_fold fold_map comp_def)

lemma phase_entry_spec: "phase_entry ex p = spec_phase ex p"
  by (auto simp add: phase_entry_def spec_phase_def split: option.splits bool.splits)

lemma analytic_loop_ok:
  assumes "list_all (\<lambda>r. length r = L) rows" and "length rows = length (pulses p)"
    and "\<forall>n \<in> set ns. n < L"
  shows "analytic_loop ex p (Arr2 rows) grid (drift_sum ex p) ns U_list =
           Inr (U_list @ map (spec_propagator ex p rows grid) ns)"
  using assms(3)
proof (induction ns arbitrary: U_list)
  case Nil
  show ?case by simp
next
  case (Cons n ns)
  have n: "n < L" using Cons.prems by simp
  have t: "control_terms ex p (Arr2 rows) n [0 ..< length (ctrls ex p)] =
           Inr (map (\<lambda>m. py_scale ex (rows ! m ! n) (get_ideal_qobj ex (pulses p ! m) (dims p)))
                  [0 ..< length (pulses p)])"
    using assms(1) n assms(2) by (rule control_terms_all)
  have ih: "\<And>U. analytic_loop ex p (Arr2 rows) grid (drift_sum ex p) ns U =
           Inr (U @ map (spec_propagator ex p rows grid) ns)"
    using Cons by simp
  show ?case
    by (simp add: t ih Let_def spec_propagator_def spec_generator_def py_sum_foldl
          drift_sum_spec [symmetric])
qed

lemma map_eq_nth:
  assumes "length rows = length xs" and "\<forall>m < length xs. f (xs ! m) = rows ! m"
  shows "map f xs = rows"
  using assms by (intro nth_equalityI) auto

text \<open>
  C1. Let the pulses pass the validator, let the processor's kind be \<open>step_func\<close> or
  \<open>cubic\<close>, let \<open>grid\<close> be the canonical grid, and let every pulse have a numeric
  coefficient that the resampler maps to the row \<open>rows ! m\<close> of the length of the
  grid. Then \<open>get_full_coeffs\<close> returns the matrix \<open>rows\<close> and \<open>run_analytically\<close>
  returns the list that starts with the initial state when one is given and continues,
  for every \<open>n\<close> with \<open>n + 1 < len(grid)\<close> in ascending order, with the propagator
  \<open>exp(-i G_n (t_{n+1} - t_n))\<close> passed through the hook, where \<open>G_n\<close> is the sum of the
  drift terms plus \<open>\<Sum>_m rows[m][n] * control_m\<close>, with the resampled coefficient at the
  left end point \<open>t_n\<close>, whichever of the two kinds is configured. The list ends with
  the global-phase factor when the processor has the capability switched on and a
  non-zero phase; the base class has none.
\<close>

theorem run_analytically_propagators:
  assumes grid: "get_full_tlist (pulses p) default_tol = Some grid"
    and valid: "is_pulses_valid p = Inr True"
    and kind: "proc_spline_kind p = Some ''step_func'' \<or> proc_spline_kind p = Some ''cubic''"
    and len: "length rows = length (pulses p)"
    and fill: "\<forall>m < length (pulses p). \<exists>c. coeff (pulses p ! m) = CArray c \<and>
                 fill_coeff ex c (tlist (pulses p ! m)) (Some grid)
                   (proc_spline_kind p = Some ''step_func'') = Inr (rows ! m) \<and>
                 length (rows ! m) = length grid"
  shows "get_full_coeffs ex None p = Inr (Arr2 rows) \<and>
         run_analytically ex init_state p =
           Inr ((case init_state of Some s \<Rightarrow> [s] | None \<Rightarrow> []) @
                map (spec_propagator ex p rows grid) [0 ..< length grid - 1] @
                spec_phase ex p) \<and>
         (correct_global_phase p = None \<longrightarrow> spec_phase ex p = [])"
proof -
  let ?row = "full_coeff_row ex (proc_spline_kind p) (Some grid)"
  have ne: "pulses p \<noteq> []" using grid by (auto simp: get_full_tlist_def)
  have row: "\<forall>m < length (pulses p). ?row (pulses p ! m) = Inr (rows ! m)"
  proof (intro allI impI)
    fix m assume m: "m < length (pulses p)"
    then obtain c where c: "coeff (pulses p ! m) = CArray c"
      and f: "fill_coeff ex c (tlist (pulses p ! m)) (Some grid)
                   (proc_spline_kind p = Some ''step_func'') = Inr (rows ! m)"
      using fill by blast
    from kind show "?row (pulses p ! m) = Inr (rows ! m)"
    proof
      assume "proc_spline_kind p = Some ''step_func''"
      with c f show ?thesis by (simp add: full_coeff_row_def)
    next
      assume "proc_spline_kind p = Some ''cubic''"
      with c f show ?thesis by (simp add: full_coeff_row_def)
    qed
  qed
  have ok: "\<forall>x \<in> set (pulses p). \<exists>r. ?row x = Inr r"
    using row by (auto simp: in_set_conv_nth)
  have "full_coeff_rows ex (proc_spline_kind p) (Some grid) (pulses p) [] =
          Inr ([] @ map (\<lambda>x. projr (?row x)) (pulses p))"
    using ok by (rule full_coeff_rows_ok)
  moreover have "map (\<lambda>x. projr (?row x)) (pulses p) = rows"
    using len row by (intro map_eq_nth) auto
  ultimately have rows: "full_coeff_rows ex (proc_spline_kind p) (Some grid) (pulses p) [] = Inr rows"
    by simp
  have coeffs: "get_full_coeffs ex None p = Inr (Arr2 rows)"
    using valid ne grid rows by (simp add: get_full_coeffs_def resolve_full_tlist_def)
  have all: "list_all (\<lambda>r. length r = length grid) rows"
    using fill len by (auto simp: list_all_iff in_set_conv_nth)
  have loop: "\<And>U. analytic_loop ex p (Arr2 rows) grid (drift_sum ex p) [0 ..< length grid - 1] U =
           Inr (U @ map (spec_propagator ex p rows grid) [0 ..< length grid - 1])"
    using all len by (intro analytic_loop_ok [of "length grid"]) auto
  have "run_analytically ex init_state p =
           Inr ((case init_state of Some s \<Rightarrow> [s] | None \<Rightarrow> []) @
                map (spec_propagator ex p rows grid) [0 ..< length grid - 1] @
                spec_phase ex p)"
    using loop by (simp add: run_analytically_def coeffs grid Let_def phase_entry_spec)
  with coeffs show ?thesis by (simp add: spec_phase_def)
qed

theorem run_analytically_propagators_witness:
  "run_analytically example_externals (Some (State ''psi'')) example_run =
     Inr [State ''psi'',
          Expm (Plus (Plus (Plus Int0 (Expanded [0, 1] [2, 2])) (Expanded [1] [2, 2]))
                     (Plus (Plus Int0 (Times 5 (Expanded [0] [2, 2]))) (Times 2 (Expanded [1] [2, 2]))))
               1,
          Expm (Plus (Plus (Plus Int0 (Expanded [0, 1] [2, 2])) (Expanded [1] [2, 2]))
                     (Plus (Plus Int0 (Times 7 (Expanded [0] [2, 2]))) (Times 2 (Expanded [1] [2, 2]))))
               2,
          GlobalPhase (1 / 2) 2]"
proof -
  have grid: "get_full_tlist (pulses example_run) default_tol = Some [0, 1, 3]"
    by (simp add: example_run_def example_processor_def example_pulse_def get_full_tlist_def
          default_tol_def np_unique_sort_def)
  have valid: "is_pulses_valid example_run = Inr True"
    by (simp add: example_run_def example_processor_def example_pulse_def is_pulses_valid_def
          check_pulse_def)
  have kind: "proc_spline_kind example_run = Some ''step_func'' \<or>
              proc_spline_kind example_run = Some ''cubic''"
    by (simp add: example_run_def example_processor_def init_processor_def)
  have len: "length [[5, 7, 0], [2, 2, 4 :: real]] = length (pulses example_run)"
    by (simp add: example_run_def example_processor_def)
  have fill: "\<forall>m < length (pulses example_run). \<exists>c. coeff (pulses example_run ! m) = CArray c \<and>
                 fill_coeff example_externals c (tlist (pulses example_run ! m)) (Some [0, 1, 3])
                   (proc_spline_kind example_run = Some ''step_func'')
                   = Inr ([[5, 7, 0], [2, 2, 4]] ! m) \<and>
                 length ([[5, 7, 0], [2, 2, 4 :: real]] ! m) = length [0, 1, 3 :: real]"
    by (simp add: example_run_def example_processor_def example_pulse_def example_externals_def
          init_processor_def spec_fill_step_def less_Suc_eq)
  have "run_analytically example_externals (Some (State ''psi'')) example_run =
           Inr ((case Some (State ''psi'') of Some s \<Rightarrow> [s] | None \<Rightarrow> []) @
                map (spec_propagator example_externals example_run [[5, 7, 0], [2, 2, 4]] [0, 1, 3])
                  [0 ..< length [0, 1, 3 :: real] - 1] @
                spec_phase example_externals example_run)"
    using run_analytically_propagators [OF grid valid kind len fill, of "Some (State ''psi'')"] by blast
  then show ?thesis
    by (simp add: spec_propagator_def spec_generator_def spec_drift_def spec_phase_def
          example_run_def example_processor_def example_pulse_def example_externals_def
          init_processor_def upt_rec)
qed

section \<open>Properties of run_state\<close>

text \<open>
  The analytical branch: with options or noise every call ends in an exception; with
  neither, and an initial state, the result is that of \<open>run_analytically\<close>.
\<close>

lemma run_state_analytical_cases:
  "(analytical \<and> (kwargs \<noteq> [] \<or> noise p \<noteq> []) \<longrightarrow>
      (\<exists>ws e. run_state ex as_error numeric init_state analytical states noisy solver kwargs p
                 = (ws, Inl e))) \<and>
   (kwargs \<noteq> [] \<or> noise p \<noteq> [] \<longrightarrow>
      run_state ex as_error numeric (Some s) True None noisy solver kwargs p =
        (if as_error (UserWarning msg_analytical) then ([], Inl (UserWarning msg_analytical))
         else ([UserWarning msg_analytical],
               Inl (TypeError ''exceptions must derive from BaseException'')))) \<and>
   (kwargs = [] \<and> noise p = [] \<longrightarrow>
      run_state ex as_error numeric (Some s) True None noisy solver kwargs p =
        ([], case run_analytically ex (Some s) p of
               Inl e \<Rightarrow> Inl e
             | Inr U_list \<Rightarrow> Inr (Propagators U_list)))"
  by (auto simp add: run_state_def Let_def)

text \<open>
  C8. With \<open>analytical=True\<close> and configured noise, or keyword options, the code does
  not raise a usage error that names the conflict: \<open>raise warnings.warn(...)\<close> reports a
  warning, \<open>warn\<close> returns \<open>None\<close>, and \<open>raise None\<close> raises the TypeError
  \<open>exceptions must derive from BaseException\<close>.
\<close>

theorem run_state_analytical_type_error:
  "run_state example_externals (\<lambda>w. False) (\<lambda>s noisy solver kw q. Inr ())
     (Some (State ''psi'')) True None True ''mesolve'' ([] :: (string \<times> unit) list)
     ((example_processor [example_pulse (CArray [5, 7]) (Some [0, 1, 3]) ''step_func''] ''step_func'')
        \<lparr>noise := [()]\<rparr>)
   = ([UserWarning (''Analytical matrices exponentiationdoes not process noise or'' @
                    ''any keyword arguments.'')],
      Inl (TypeError ''exceptions must derive from BaseException'')) \<and>
   run_state example_externals (\<lambda>w. False) (\<lambda>s noisy solver kw q. Inr ())
     (Some (State ''psi'')) True None True ''mesolve'' [(''nsteps'', ())]
     (example_processor [example_pulse (CArray [5, 7]) (Some [0, 1, 3]) ''step_func''] ''step_func'')
   = ([UserWarning (''Analytical matrices exponentiationdoes not process noise or'' @
                    ''any keyword arguments.'')],
      Inl (TypeError ''exceptions must derive from BaseException''))"
  by (simp add: run_state_def msg_analytical_def example_processor_def init_processor_def)

text \<open>The outcome of the first call: no result, and not an error that names the conflict.\<close>

theorem run_state_analytical_type_error_witness:
  "snd (run_state example_externals (\<lambda>w. False) (\<lambda>s noisy solver kw q. Inr ())
     (Some (State ''psi'')) True None True ''mesolve'' ([] :: (string \<times> unit) list)
     ((example_processor [example_pulse (CArray [5, 7]) (Some [0, 1, 3]) ''step_func''] ''step_func'')
        \<lparr>noise := [()]\<rparr>))
   = Inl (TypeError ''exceptions must derive from BaseException'')"
  using run_state_analytical_type_error by simp

section \<open>Properties of remove_pulse\<close>

text \<open>
  C6. Removal by label does not delete every pulse with that label: on two pulses that
  both carry the label \<open>zz\<close>, \<open>remove_pulse(label="zz")\<close> deletes the first, the
  iterator then stands at position 1 of a list of length 1 and the loop ends, so a
  pulse labelled \<open>zz\<close> remains.
\<close>

theorem remove_pulse_label_leaves_match:
  "map label (pulses (fst (remove_pulse INone (Some ''zz'')
      \<lparr>num_qubits = 2,
       pulses = [Pulse \<lparr>qdata = (), qdims = [2], isherm = True\<rparr> [0] None (Some ''zz''),
                 Pulse \<lparr>qdata = (), qdims = [2], isherm = True\<rparr> [1] None (Some ''zz'')],
       t1 = RNone, t2 = RNone, noise = ([] :: unit list), drift = [], dims = [2, 2],
       proc_spline_kind = None, correct_global_phase = None, global_phase = None\<rparr>)))
   = [Some ''zz'']"
  by (simp add: remove_pulse_def remove_label_from.simps delete_at_def Pulse_def)

section \<open>Properties of get_noisy_pulses\<close>

lemma deepcopy_from_props:
  assumes "\<forall>(a, c) \<in> set memo. n0 \<le> c" and "n0 \<le> length st"
    and "deepcopy_from st memo as = (st', cs)"
  shows "length st \<le> length st' \<and> take (length st) st' = st \<and> (\<forall>c \<in> set cs. n0 \<le> c)"
  using assms
proof (induction as arbitrary: st memo st' cs)
  case Nil
  then show ?case by simp
next
  case (Cons a as)
  show ?case
  proof (cases "map_of memo a")
    case (Some c)
    then obtain cs' where r: "deepcopy_from st memo as = (st', cs')" and cs: "cs = c # cs'"
      using Cons.prems(3) by (auto split: prod.splits)
    have "(a, c) \<in> set memo" using Some by (rule map_of_SomeD)
    then have "n0 \<le> c" using Cons.prems(1) by auto
    moreover have "length st \<le> length st' \<and> take (length st) st' = st \<and> (\<forall>c \<in> set cs'. n0 \<le> c)"
      using Cons.IH [OF Cons.prems(1) Cons.prems(2) r] .
    ultimately show ?thesis using cs by simp
  next
    case None
    then obtain cs' where r: "deepcopy_from (st @ [st ! a]) ((a, length st) # memo) as = (st', cs')"
      and cs: "cs = length st # cs'"
      using Cons.prems(3) by (auto split: prod.splits)
    have m: "\<forall>(a, c) \<in> set ((a, length st) # memo). n0 \<le> c"
      using Cons.prems(1,2) by auto
    have l: "n0 \<le> length (st @ [st ! a])" using Cons.prems(2) by simp
    have ih: "length (st @ [st ! a]) \<le> length st' \<and> take (length (st @ [st ! a])) st' = st @ [st ! a]
          \<and> (\<forall>c \<in> set cs'. n0 \<le> c)"
      using Cons.IH [OF m l r] .
    then have "take (length st) (take (length (st @ [st ! a])) st') = take (length st) (st @ [st ! a])"
      by simp
    then have "take (length st) st' = st" by (simp add: min_def)
    with ih cs Cons.prems(2) show ?thesis by simp
  qed
qed

lemma deepcopy_props:
  assumes "deepcopy st as = (st', cs)"
  shows "length st \<le> length st'" and "\<forall>a < length st. st' ! a = st ! a"
    and "\<forall>c \<in> set cs. length st \<le> c"
proof -
  have p: "length st \<le> length st' \<and> take (length st) st' = st \<and> (\<forall>c \<in> set cs. length st \<le> c)"
    using assms deepcopy_from_props [of "[]" "length st" st as st' cs] by (simp add: deepcopy_def)
  then show "length st \<le> length st'" and "\<forall>c \<in> set cs. length st \<le> c" by simp_all
  show "\<forall>a < length st. st' ! a = st ! a"
  proof (intro allI impI)
    fix a assume "a < length st"
    then have "take (length st) st' ! a = st' ! a" by simp
    with p show "st' ! a = st ! a" by simp
  qed
qed

lemma fold_update_length:
  "length (fold (\<lambda>a s. s[a := f (s ! a)]) as st) = length st"
  by (induction as arbitrary: st) simp_all

lemma fold_update_other:
  "a \<notin> set as \<Longrightarrow> fold (\<lambda>b s. s[b := f (s ! b)]) as st ! a = st ! a"
  by (induction as arbitrary: st) auto

lemma example_noise_frame: "noise_frame example_noise"
  unfolding noise_frame_def example_noise_def
  by (auto simp: fold_update_length fold_update_other nth_append)

text \<open>
  C5. Let \<open>process_noise\<close> keep to the frame of section 4.4, and let every stored pulse
  be allocated. Then after \<open>get_noisy_pulses\<close> the list \<open>self.pulses\<close> holds the same
  addresses as before, every stored pulse is still allocated with the content it had,
  and no pulse of the returned list is a stored pulse: the noise process has only seen
  the deep copy.
\<close>

theorem get_noisy_pulses_frame:
  assumes frame: "noise_frame process_noise"
    and wf: "\<forall>a \<in> set self_pulses. a < length st"
    and run: "get_noisy_pulses process_noise device_noise with_drift p (st, self_pulses)
                = ((st', self_pulses'), result)"
  shows "self_pulses' = self_pulses \<and>
         (\<forall>a \<in> set self_pulses. a < length st' \<and> st' ! a = st ! a) \<and>
         (\<forall>a \<in> set self_pulses. PulseRef a \<notin> set result)"
proof -
  obtain st1 copied where dc: "deepcopy st self_pulses = (st1, copied)" by fastforce
  obtain st2 noisy where pn:
    "process_noise st1 copied (noise p) (dims p) (t1 p) (t2 p) device_noise = (st2, noisy)"
    by fastforce
  have res: "st' = st2" "self_pulses' = self_pulses"
    "result = (if with_drift then map PulseRef noisy @ [DriftRef] else map PulseRef noisy)"
    using run dc pn by (simp_all add: get_noisy_pulses_def Let_def)
  note d = deepcopy_props [OF dc]
  have fr: "length st1 \<le> length st2"
    "\<forall>a < length st1. a \<notin> set copied \<longrightarrow> st2 ! a = st1 ! a"
    "\<forall>r \<in> set noisy. r \<in> set copied \<or> length st1 \<le> r"
    using frame pn unfolding noise_frame_def
    by (metis (mono_tags, lifting) case_prod_conv)+
  have stored: "\<forall>a \<in> set self_pulses. a < length st' \<and> st' ! a = st ! a"
  proof
    fix a assume a: "a \<in> set self_pulses"
    then have lt: "a < length st" using wf by simp
    then have "a \<notin> set copied" using d(3) by auto
    moreover have "a < length st1" using lt d(1) by simp
    ultimately have "st2 ! a = st1 ! a" using fr(2) by simp
    moreover have "st1 ! a = st ! a" using d(2) lt by simp
    moreover have "a < length st2" using lt d(1) fr(1) by simp
    ultimately show "a < length st' \<and> st' ! a = st ! a" using res(1) by simp
  qed
  have fresh: "\<forall>a \<in> set self_pulses. PulseRef a \<notin> set result"
  proof
    fix a assume a: "a \<in> set self_pulses"
    then have lt: "a < length st" using wf by simp
    have "a \<notin> set noisy"
    proof
      assume "a \<in> set noisy"
      then have "a \<in> set copied \<or> length st1 \<le> a" using fr(3) by simp
      then show False using d(1,3) lt by auto
    qed
    then show "PulseRef a \<notin> set result" using res(3) by auto
  qed
  from res(2) stored fresh show ?thesis by simp
qed

theorem get_noisy_pulses_frame_witness:
  "get_noisy_pulses example_noise False True (example_processor [] ''step_func'')
     ([example_pulse CNone None ''step_func'', example_pulse (CBool False) None ''step_func''],
      [0, 1, 0])
   = (([example_pulse CNone None ''step_func'', example_pulse (CBool False) None ''step_func'',
        example_pulse (CBool True) None ''step_func'', example_pulse (CBool True) None ''step_func'',
        Pulse \<lparr>qdata = (), qdims = [2], isherm = True\<rparr> [0] None (Some ''noise'')],
       [0, 1, 0]),
      [PulseRef 2, PulseRef 3, PulseRef 2, PulseRef 4, DriftRef]) \<and>
   PulseRef 0 \<notin> set [PulseRef 2, PulseRef 3, PulseRef 2, PulseRef 4, DriftRef] \<and>
   PulseRef 1 \<notin> set [PulseRef 2, PulseRef 3, PulseRef 2, PulseRef 4, DriftRef]"
proof -
  let ?st = "[example_pulse CNone None ''step_func'', example_pulse (CBool False) None ''step_func'']"
  let ?st' = "[example_pulse CNone None ''step_func'', example_pulse (CBool False) None ''step_func'',
        example_pulse (CBool True) None ''step_func'', example_pulse (CBool True) None ''step_func'',
        Pulse \<lparr>qdata = (), qdims = [2], isherm = True\<rparr> [0] None (Some ''noise'')]"
  have frame: "noise_frame example_noise" by (rule example_noise_frame)
  have wf: "\<forall>a \<in> set [0, 1, 0]. a < length ?st" by simp
  have run: "get_noisy_pulses example_noise False True (example_processor [] ''step_func'')
               (?st, [0, 1, 0])
             = ((?st', [0, 1, 0]), [PulseRef 2, PulseRef 3, PulseRef 2, PulseRef 4, DriftRef])"
    by (simp add: get_noisy_pulses_def deepcopy_def example_noise_def example_pulse_def)
  from get_noisy_pulses_frame [OF frame wf run]
  have "\<forall>a \<in> set [0, 1, 0]. PulseRef a \<notin> set [PulseRef 2, PulseRef 3, PulseRef 2, PulseRef 4, DriftRef]"
    by blast
  then have "PulseRef 0 \<notin> set [PulseRef 2, PulseRef 3, PulseRef 2, PulseRef 4, DriftRef] \<and>
             PulseRef 1 \<notin> set [PulseRef 2, PulseRef 3, PulseRef 2, PulseRef 4, DriftRef]"
    by simp
  with run show ?thesis by blast
qed

section \<open>Properties of save_coeff and read_coeff\<close>

text \<open>
  Written with sixteen fractional digits, a value moves by at most \<open>0.5e-16\<close>, and an
  integer value does not move.
\<close>

lemma round_half_even_error: "\<bar>of_int (round_half_even y) - y\<bar> \<le> 1 / 2"
proof -
  have "of_int \<lfloor>y\<rfloor> \<le> y" "y < of_int \<lfloor>y\<rfloor> + 1" by linarith+
  then show ?thesis by (auto simp: round_half_even_def Let_def)
qed

lemma fmt_16f_error: "\<bar>fmt_16f x - x\<bar> \<le> 1 / (2 * 10 ^ 16)"
proof -
  define K :: real where "K = 10 ^ 16"
  have K: "0 < K" by (simp add: K_def)
  have f: "fmt_16f x = of_int (round_half_even (x * K)) / K" by (simp add: fmt_16f_def K_def)
  have "fmt_16f x - x = (of_int (round_half_even (x * K)) - x * K) / K"
    using K by (simp add: f diff_divide_distrib)
  then have "\<bar>fmt_16f x - x\<bar> = \<bar>of_int (round_half_even (x * K)) - x * K\<bar> / K"
    using K by simp
  also have "\<dots> \<le> (1 / 2) / K"
    using K round_half_even_error [of "x * K"] by (intro divide_right_mono) auto
  finally show ?thesis by (simp add: K_def)
qed

lemma fmt_16f_int: "fmt_16f (of_int k) = of_int k"
proof -
  have "(of_int k :: real) * 10 ^ 16 = of_int (k * 10 ^ 16)" by simp
  then have "round_half_even (of_int k * 10 ^ 16) = k * 10 ^ 16"
    by (simp only: round_half_even_def Let_def floor_of_int) simp
  then show ?thesis by (simp add: fmt_16f_def)
qed

text \<open>With \<open>inctime=True\<close>, whatever \<open>read_coeff\<close> returns starts with the bound method.\<close>

lemma read_coeff_first_component:
  assumes "read_coeff data True p = Inr (p', v)"
  shows "v = PyTuple (PyBoundMethod ''get_full_tlist'') (PyCoeffs (coeffs p'))"
  using assms
  by (auto simp: read_coeff_def Let_def split: ndarray.splits if_splits sum.splits)

text \<open>
  C9. The round trip does not return the canonical grid. \<open>save_coeff\<close> writes the grid
  \<open>[0, 1, 2, 3]\<close> and the resampled coefficients of two pulses; \<open>read_coeff\<close> on that
  file sets the grid and the coefficients of the pulses, and then returns the bound
  method \<open>self.get_full_tlist\<close> itself (the call parentheses are missing) in the place
  where its docstring promises the time list.
\<close>

theorem read_coeff_returns_method:
  "save_coeff example_externals True
     (example_processor [example_pulse (CArray [5, 7]) (Some [0, 1, 3]) ''step_func'',
                         example_pulse (CArray [2, 3, 4]) (Some [0, 2, 3]) ''step_func''] ''step_func'')
     = Inr [[0, 5, 2], [1, 7, 2], [2, 7, 3], [3, 0, 4]] \<and>
   read_coeff (np_loadtxt [[0, 5, 2], [1, 7, 2], [2, 7, 3], [3, 0, 4]]) True
     (example_processor [example_pulse CNone None ''step_func'',
                         example_pulse CNone None ''step_func''] ''step_func'')
     = Inr (example_processor
              [example_pulse (CArray [5, 7, 7, 0]) (Some [0, 1, 2, 3]) ''step_func'',
               example_pulse (CArray [2, 2, 3, 4]) (Some [0, 1, 2, 3]) ''step_func''] ''step_func'',
            PyTuple (PyBoundMethod ''get_full_tlist'')
                    (PyCoeffs (Some [CArray [5, 7, 7, 0], CArray [2, 2, 3, 4]])))"
proof -
  have n: "fmt_16f 0 = 0" "fmt_16f 1 = 1" "fmt_16f 2 = 2" "fmt_16f 3 = 3" "fmt_16f 4 = 4"
    "fmt_16f 5 = 5" "fmt_16f 7 = 7"
    using fmt_16f_int [of 0] fmt_16f_int [of 1] fmt_16f_int [of 2] fmt_16f_int [of 3]
      fmt_16f_int [of 4] fmt_16f_int [of 5] fmt_16f_int [of 7] by simp_all
  show ?thesis
    by (simp add: save_coeff_def read_coeff_def np_loadtxt_def np_savetxt_def n
        np_transpose_def set_coeffs_def set_all_tlist_def coeffs_def Let_def
        get_full_coeffs_def is_pulses_valid_def check_pulse_def resolve_full_tlist_def
        get_full_tlist_def default_tol_def np_unique_sort_def full_coeff_row_def
        spec_fill_step_def
        example_processor_def example_pulse_def example_externals_def init_processor_def upt_rec)
qed

end
